theory Spec2Isabelle
  imports Main
begin

section \<open>The connection manager of the JFrog VS Code extension\<close>

text \<open>
  A shallow embedding of \<^verbatim>\<open>src/main/connect/connectionManager.ts\<close>. The class
  \<^verbatim>\<open>ConnectionManager\<close> keeps three private strings and talks to four
  collaborators of the editor and of Node: the extension's \<^verbatim>\<open>globalState\<close>, the
  OS key store (\<^verbatim>\<open>keytar\<close>), the input box (\<^verbatim>\<open>showInputBox\<close>) and the workspace
  configuration. They are the fields of a \<open>world\<close> that every method takes and
  returns, together with a trace of the calls made, oldest first. Awaiting a promise is
  sequencing: the class has no concurrent mutators.

  What the file imports and does not define is a parameter, collected in the record
  \<open>externals\<close>: the SHA-256 digest of Node's \<^verbatim>\<open>crypto\<close>, the WHATWG parser behind
  \<^verbatim>\<open>new URL\<close>, the constructor of \<^verbatim>\<open>XrayClient\<close>, \<^verbatim>\<open>ConnectionUtils.checkConnection\<close>,
  the version of \<^verbatim>\<open>package.json\<close>, and the two remote requests of the client
  libraries. Whatever of this can throw or reject where the class does not catch is an
  error value of the method: a rejected address of the proxy, a refused client
  configuration, a failed request, a rejected write to one of the two stores.
\<close>

subsection \<open>JavaScript strings and numbers\<close>

text \<open>\<^verbatim>\<open>x || ''\<close> for \<^verbatim>\<open>x: string | undefined\<close>.\<close>

definition or_empty :: "string option \<Rightarrow> string" where
  "or_empty x = (case x of None \<Rightarrow> [] | Some s \<Rightarrow> s)"

text \<open>Truthiness of a \<^verbatim>\<open>string | undefined\<close>: \<^verbatim>\<open>undefined\<close> and \<^verbatim>\<open>''\<close> are falsy.\<close>

definition truthy :: "string option \<Rightarrow> bool" where
  "truthy x = (case x of None \<Rightarrow> False | Some s \<Rightarrow> s \<noteq> [])"

datatype js_number = Number nat | NaN

text \<open>
  The unary \<^verbatim>\<open>+\<close> on a string, for the strings \<^verbatim>\<open>URL.port\<close> can hold: the empty
  string (0) and decimal digits. Any other string is sent to \<open>NaN\<close>; the numeric
  literals of JavaScript with a sign, a fraction, an exponent, a radix prefix or
  surrounding white space never occur in a port.
\<close>

fun decimal :: "nat \<Rightarrow> string \<Rightarrow> js_number" where
  "decimal acc [] = Number acc"
| "decimal acc (c # cs) =
     (if 48 \<le> (of_char c :: nat) \<and> (of_char c :: nat) \<le> 57
      then decimal (10 * acc + (of_char c - 48)) cs
      else NaN)"

definition unary_plus :: "string \<Rightarrow> js_number" where
  "unary_plus s = decimal 0 s"

subsection \<open>Data\<close>

text \<open>The three properties of a parsed \<^verbatim>\<open>URL\<close> that the class reads.\<close>

record URL =
  url_protocol :: string
  url_host :: string
  url_port :: string

text \<open>\<^verbatim>\<open>IProxyConfig\<close>: every property is optional, \<^verbatim>\<open>{}\<close> has none.\<close>

record IProxyConfig =
  protocol :: "string option"
  host :: "string option"
  port :: "js_number option"

text \<open>\<^verbatim>\<open>IProxyConfig | boolean\<close>, of which the class only produces \<^verbatim>\<open>false\<close> and objects.\<close>

datatype proxy = PFalse | PConfig IProxyConfig

record IClientConfig =
  serverUrl :: "string option"
  username :: "string option"
  password :: "string option"
  headers :: "string \<rightharpoonup> string"
  proxy :: proxy

datatype validator = validateUrl | validateFieldNotEmpty

text \<open>\<^verbatim>\<open>vscode.InputBoxOptions\<close>, with the properties the class sets.\<close>

record InputBoxOptions =
  ib_prompt :: string
  ib_value :: "string option"
  ib_password :: bool
  ib_ignoreFocusOut :: bool
  ib_validateInput :: validator

datatype error =
    TypeError_Invalid_URL string
  | ClientError string
  | RequestError string
  | StorageError string

datatype 'c event =
    GlobalStateGet string
  | GlobalStateUpdate string string
  | GetPassword string string
  | SetPassword string string string
  | ShowInputBox InputBoxOptions
  | WithProgress string
  | CheckConnection IClientConfig
  | SummaryComponent IClientConfig "'c list"
  | MetadataForModules IClientConfig "'c list"

text \<open>
  The world outside the class. \<open>globalState\<close> is the \<^verbatim>\<open>globalState\<close> of the extension
  context handed to \<^verbatim>\<open>activate\<close> (the field \<^verbatim>\<open>_context\<close> is assigned there, once,
  and the class is modelled from that call on). \<open>answers\<close> is what the user will
  give to the input boxes to come, \<open>None\<close> for a dismissed box; when it is exhausted
  every further box is dismissed. The answers are not filtered by the validators of the
  boxes: the class itself only tests them for emptiness.

  The two stores are maps. A write to them can fail: \<open>rejects\<close> gives, for the call
  that a write event stands for, the reason with which the store rejects the promise it
  returned (a locked or missing key chain, a state file that cannot be written), and
  \<open>None\<close> when the write goes through. A rejected write leaves the store as it was.
  The reads are taken to complete.
\<close>

record 'c world =
  globalState :: "string \<rightharpoonup> string"
  keychain :: "string \<times> string \<rightharpoonup> string"
  configuration :: "string \<rightharpoonup> string"
  answers :: "string option list"
  rejects :: "'c event \<Rightarrow> string option"
  trace :: "'c event list"

text \<open>The private fields \<^verbatim>\<open>_url\<close>, \<^verbatim>\<open>_username\<close> and \<^verbatim>\<open>_password\<close>.\<close>

record manager =
  this_url :: string
  this_username :: string
  this_password :: string

definition new_manager :: manager where
  "new_manager = \<lparr>this_url = [], this_username = [], this_password = []\<rparr>"

record ('c, 'a, 'm) externals =
  package_version :: string
  sha256_hex :: "string \<Rightarrow> string"
  new_URL :: "string \<Rightarrow> URL option"
  new_XrayClient :: "IClientConfig \<Rightarrow> string option"
  checkConnection :: "IClientConfig \<Rightarrow> bool"
  summary_component :: "IClientConfig \<Rightarrow> 'c list \<Rightarrow> string + 'a list"
  getMetadataForModules :: "IClientConfig \<Rightarrow> 'c list \<Rightarrow> string + 'm list"

subsection \<open>Constants of the class\<close>

definition XRAY_USERNAME_KEY :: string where
  "XRAY_USERNAME_KEY = ''jfrog.xray.username''"

definition XRAY_URL_KEY :: string where
  "XRAY_URL_KEY = ''jfrog.xray.url''"

definition SERVICE_ID :: string where
  "SERVICE_ID = ''com.jfrog.xray.vscode''"

definition USER_AGENT :: "('c, 'a, 'm) externals \<Rightarrow> string" where
  "USER_AGENT E = ''jfrog-vscode-extension/'' @ package_version E"

subsection \<open>The collaborators\<close>

definition emit :: "'c event \<Rightarrow> 'c world \<Rightarrow> 'c world" where
  "emit e w = w\<lparr>trace := trace w @ [e]\<rparr>"

definition get_globalState :: "string \<Rightarrow> 'c world \<Rightarrow> string option \<times> 'c world" where
  "get_globalState k w = (globalState w k, emit (GlobalStateGet k) w)"

text \<open>
  \<^verbatim>\<open>globalState.update(key, value)\<close>, awaited: the error with which the promise rejects,
  if it does, and the world after the call.
\<close>

definition update_globalState :: "string \<Rightarrow> string \<Rightarrow> 'c world \<Rightarrow> error option \<times> 'c world" where
  "update_globalState k v w =
     (case rejects w (GlobalStateUpdate k v) of
        Some reason \<Rightarrow> (Some (StorageError reason), emit (GlobalStateUpdate k v) w)
      | None \<Rightarrow>
          (None, emit (GlobalStateUpdate k v) (w\<lparr>globalState := (globalState w)(k \<mapsto> v)\<rparr>)))"

definition keytar_getPassword :: "string \<Rightarrow> string \<Rightarrow> 'c world \<Rightarrow> string option \<times> 'c world" where
  "keytar_getPassword service account w = (keychain w (service, account), emit (GetPassword service account) w)"

text \<open>\<^verbatim>\<open>keytar.setPassword(service, account, password)\<close>, awaited, in the same way.\<close>

definition keytar_setPassword ::
  "string \<Rightarrow> string \<Rightarrow> string \<Rightarrow> 'c world \<Rightarrow> error option \<times> 'c world" where
  "keytar_setPassword service account pw w =
     (case rejects w (SetPassword service account pw) of
        Some reason \<Rightarrow> (Some (StorageError reason), emit (SetPassword service account pw) w)
      | None \<Rightarrow>
          (None,
           emit (SetPassword service account pw)
             (w\<lparr>keychain := (keychain w)((service, account) \<mapsto> pw)\<rparr>)))"

definition showInputBox :: "InputBoxOptions \<Rightarrow> 'c world \<Rightarrow> string option \<times> 'c world" where
  "showInputBox opts w =
     (case answers w of
        [] \<Rightarrow> (None, emit (ShowInputBox opts) w)
      | a # as \<Rightarrow> (a, emit (ShowInputBox opts) (w\<lparr>answers := as\<rparr>)))"

text \<open>\<^verbatim>\<open>vscode.workspace.getConfiguration().get(key, defaultValue)\<close>.\<close>

definition get_default :: "(string \<rightharpoonup> string) \<Rightarrow> string \<Rightarrow> string \<Rightarrow> string" where
  "get_default c k d = (case c k of None \<Rightarrow> d | Some v \<Rightarrow> v)"

subsection \<open>Proxy and headers\<close>

definition getProxyConfig :: "('c, 'a, 'm) externals \<Rightarrow> 'c world \<Rightarrow> error + proxy" where
  "getProxyConfig E w =
     (let proxySupport = get_default (configuration w) ''http.proxySupport'' ''override'' in
      if proxySupport = ''off'' then Inr PFalse
      else
        let proxyConfig = \<lparr>protocol = None, host = None, port = None\<rparr>;
            httpProxy = configuration w ''http.proxy''
        in if truthy httpProxy then
             (case new_URL E (or_empty httpProxy) of
                None \<Rightarrow> Inl (TypeError_Invalid_URL (or_empty httpProxy))
              | Some proxyUri \<Rightarrow>
                  let proxyConfig = proxyConfig\<lparr>protocol := Some (url_protocol proxyUri),
                                                 host := Some (url_host proxyUri)\<rparr>
                  in Inr (PConfig (if url_port proxyUri \<noteq> []
                                   then proxyConfig\<lparr>port := Some (unary_plus (url_port proxyUri))\<rparr>
                                   else proxyConfig)))
           else Inr (PConfig proxyConfig))"

definition addUserAgentHeader :: "('c, 'a, 'm) externals \<Rightarrow> IClientConfig \<Rightarrow> IClientConfig" where
  "addUserAgentHeader E clientConfig =
     clientConfig\<lparr>headers := (headers clientConfig)(''User-Agent'' \<mapsto> USER_AGENT E)\<rparr>"

definition addProxyAuthHeader :: "'c world \<Rightarrow> IClientConfig \<Rightarrow> IClientConfig" where
  "addProxyAuthHeader w clientConfig =
     (if proxy clientConfig \<noteq> PFalse then
        (let proxyAuthHeader = configuration w ''http.proxyAuthorization'' in
         if truthy proxyAuthHeader
         then clientConfig\<lparr>headers := (headers clientConfig)(''Proxy-Authorization'' \<mapsto> or_empty proxyAuthHeader)\<rparr>
         else clientConfig)
      else clientConfig)"

text \<open>
  The body of \<^verbatim>\<open>createXrayClient\<close> before its last line: the configuration, with the
  two headers added.
\<close>

definition xrayClientConfig :: "('c, 'a, 'm) externals \<Rightarrow> 'c world \<Rightarrow> manager \<Rightarrow> error + IClientConfig" where
  "xrayClientConfig E w this =
     (case getProxyConfig E w of
        Inl e \<Rightarrow> Inl e
      | Inr p \<Rightarrow>
          Inr (addProxyAuthHeader w (addUserAgentHeader E
                 \<lparr>serverUrl = Some (this_url this), username = Some (this_username this),
                  password = Some (this_password this), headers = Map.empty, proxy = p\<rparr>)))"

text \<open>
  The last line is \<^verbatim>\<open>return new XrayClient(clientConfig)\<close>. The constructor belongs to
  the library \<^verbatim>\<open>xray-client-js\<close> and can throw: \<open>new_XrayClient\<close> gives the message of
  the \<^verbatim>\<open>Error\<close> it throws for a configuration, \<open>None\<close> when it constructs the client. A
  constructed client is represented by the configuration it was given.
\<close>

definition createXrayClient :: "('c, 'a, 'm) externals \<Rightarrow> 'c world \<Rightarrow> manager \<Rightarrow> error + IClientConfig" where
  "createXrayClient E w this =
     (case xrayClientConfig E w this of
        Inl e \<Rightarrow> Inl e
      | Inr clientConfig \<Rightarrow>
          (case new_XrayClient E clientConfig of
             Some message \<Rightarrow> Inl (ClientError message)
           | None \<Rightarrow> Inr clientConfig))"

text \<open>
  \<^verbatim>\<open>GoCenterClient\<close> is a class of the extension outside this file, constructed with the
  headers and the proxy only; its client, too, is represented by its configuration.
\<close>

definition createGoCenterClient :: "('c, 'a, 'm) externals \<Rightarrow> 'c world \<Rightarrow> manager \<Rightarrow> error + IClientConfig" where
  "createGoCenterClient E w this =
     (case getProxyConfig E w of
        Inl e \<Rightarrow> Inl e
      | Inr p \<Rightarrow>
          Inr (addProxyAuthHeader w (addUserAgentHeader E
                 \<lparr>serverUrl = None, username = None, password = None,
                  headers = Map.empty, proxy = p\<rparr>)))"

subsection \<open>Credentials\<close>

definition areCredentialsSet :: "manager \<Rightarrow> bool" where
  "areCredentialsSet this = (this_url this \<noteq> [] \<and> this_username this \<noteq> [] \<and> this_password this \<noteq> [])"

definition createAccountId :: "('c, 'a, 'm) externals \<Rightarrow> string \<Rightarrow> string \<Rightarrow> string" where
  "createAccountId E url username' = sha256_hex E (url @ username')"

definition retrieveUrl :: "bool \<Rightarrow> 'c world \<Rightarrow> manager \<Rightarrow> string \<times> 'c world" where
  "retrieveUrl prompt w this =
     (let (stored, w1) = get_globalState XRAY_URL_KEY w;
          url = or_empty stored
      in if prompt then
           (let (answer, w2) =
                  showInputBox \<lparr>ib_prompt = ''Enter Xray url'',
                                ib_value = Some (if this_url this \<noteq> [] then this_url this else ''https://''),
                                ib_password = False,
                                ib_ignoreFocusOut = True,
                                ib_validateInput = validateUrl\<rparr> w1
            in (or_empty answer, w2))
         else (url, w1))"

definition storeUrl :: "'c world \<Rightarrow> manager \<Rightarrow> error option \<times> 'c world" where
  "storeUrl w this = update_globalState XRAY_URL_KEY (this_url this) w"

definition retrieveUsername :: "bool \<Rightarrow> 'c world \<Rightarrow> manager \<Rightarrow> string \<times> 'c world" where
  "retrieveUsername prompt w this =
     (let (stored, w1) = get_globalState XRAY_USERNAME_KEY w;
          username' = or_empty stored
      in if prompt then
           (let (answer, w2) =
                  showInputBox \<lparr>ib_prompt = ''Enter Xray username'',
                                ib_value = Some (this_username this),
                                ib_password = False,
                                ib_ignoreFocusOut = True,
                                ib_validateInput = validateFieldNotEmpty\<rparr> w1
            in (or_empty answer, w2))
         else (username', w1))"

definition storeUsername :: "'c world \<Rightarrow> manager \<Rightarrow> error option \<times> 'c world" where
  "storeUsername w this = update_globalState XRAY_USERNAME_KEY (this_username this) w"

definition retrievePassword ::
  "('c, 'a, 'm) externals \<Rightarrow> bool \<Rightarrow> string \<Rightarrow> string \<Rightarrow> 'c world \<Rightarrow> string \<times> 'c world" where
  "retrievePassword E prompt url username' w =
     (let (stored, w1) = keytar_getPassword SERVICE_ID (createAccountId E url username') w;
          password' = or_empty stored
      in if prompt then
           (let (answer, w2) =
                  showInputBox \<lparr>ib_prompt = ''Enter Xray password'',
                                ib_value = None,
                                ib_password = True,
                                ib_ignoreFocusOut = True,
                                ib_validateInput = validateFieldNotEmpty\<rparr> w1
            in (or_empty answer, w2))
         else (password', w1))"

definition storePassword ::
  "('c, 'a, 'm) externals \<Rightarrow> 'c world \<Rightarrow> manager \<Rightarrow> error option \<times> 'c world" where
  "storePassword E w this =
     keytar_setPassword SERVICE_ID (createAccountId E (this_url this) (this_username this)) (this_password this) w"

definition populateCredentials ::
  "('c, 'a, 'm) externals \<Rightarrow> bool \<Rightarrow> 'c world \<Rightarrow> manager \<Rightarrow> bool \<times> 'c world \<times> manager" where
  "populateCredentials E prompt w this =
     (let (url, w1) = retrieveUrl prompt w this in
      if url = [] then (False, w1, this)
      else
        let (username', w2) = retrieveUsername prompt w1 this in
        if username' = [] then (False, w2, this)
        else
          let (password', w3) = retrievePassword E prompt url username' w2 in
          if password' = [] then (False, w3, this)
          else (True, w3, this\<lparr>this_url := url, this_username := username', this_password := password'\<rparr>))"

subsection \<open>The public methods\<close>

definition activate :: "('c, 'a, 'm) externals \<Rightarrow> 'c world \<Rightarrow> manager \<Rightarrow> 'c world \<times> manager" where
  "activate E w this = snd (populateCredentials E False w this)"

text \<open>
  \<^verbatim>\<open>vscode.window.withProgress(options, task)\<close> shows the title while the task runs
  and returns what the task returns.
\<close>

definition withProgress :: "string \<Rightarrow> ('c world \<Rightarrow> 'r \<times> 'c world \<times> manager) \<Rightarrow> 'c world \<Rightarrow> 'r \<times> 'c world \<times> manager" where
  "withProgress title task w = task (emit (WithProgress title) w)"

definition connect ::
  "('c, 'a, 'm) externals \<Rightarrow> 'c world \<Rightarrow> manager \<Rightarrow> (error + bool) \<times> 'c world \<times> manager" where
  "connect E w this =
     (let (populated, w1, this1) = populateCredentials E True w this in
      if \<not> populated then (Inr False, w1, this1)
      else
        withProgress ''Checking connection with Xray server...''
          (\<lambda>w2.
             case createXrayClient E w2 this1 of
               Inl e \<Rightarrow> (Inl e, w2, this1)
             | Inr xrayClient \<Rightarrow>
                 let w3 = emit (CheckConnection xrayClient) w2 in
                 if \<not> checkConnection E xrayClient then (Inr False, w3, this1)
                 else
                   (case storeUrl w3 this1 of
                      (Some e, w4) \<Rightarrow> (Inl e, w4, this1)
                    | (None, w4) \<Rightarrow>
                        (case storeUsername w4 this1 of
                           (Some e, w5) \<Rightarrow> (Inl e, w5, this1)
                         | (None, w5) \<Rightarrow>
                             (case storePassword E w5 this1 of
                                (Some e, w6) \<Rightarrow> (Inl e, w6, this1)
                              | (None, w6) \<Rightarrow> (Inr True, w6, this1)))))
          w1)"

definition getComponents ::
  "('c, 'a, 'm) externals \<Rightarrow> 'c list \<Rightarrow> 'c world \<Rightarrow> manager \<Rightarrow> (error + 'a list) \<times> 'c world \<times> manager" where
  "getComponents E componentDetails w this =
     (let (w1, this1) =
            (if \<not> areCredentialsSet this then snd (populateCredentials E False w this) else (w, this))
      in case createXrayClient E w1 this1 of
           Inl e \<Rightarrow> (Inl e, w1, this1)
         | Inr xrayClient \<Rightarrow>
             let w2 = emit (SummaryComponent xrayClient componentDetails) w1 in
             (case summary_component E xrayClient componentDetails of
                Inl msg \<Rightarrow> (Inl (RequestError msg), w2, this1)
              | Inr artifacts \<Rightarrow> (Inr artifacts, w2, this1)))"

definition getGoCenterModules ::
  "('c, 'a, 'm) externals \<Rightarrow> 'c list \<Rightarrow> 'c world \<Rightarrow> manager \<Rightarrow> (error + 'm list) \<times> 'c world \<times> manager" where
  "getGoCenterModules E componentDetails w this =
     (case createGoCenterClient E w this of
        Inl e \<Rightarrow> (Inl e, w, this)
      | Inr goCenterClient \<Rightarrow>
          let w1 = emit (MetadataForModules goCenterClient componentDetails) w in
          (case getMetadataForModules E goCenterClient componentDetails of
             Inl msg \<Rightarrow> (Inl (RequestError msg), w1, this)
           | Inr components_metadata \<Rightarrow> (Inr components_metadata, w1, this)))"

subsection \<open>Reading a trace\<close>

fun is_write :: "'c event \<Rightarrow> bool" where
  "is_write (GlobalStateUpdate k v) = True"
| "is_write (SetPassword service account pw) = True"
| "is_write e = False"

fun is_prompt :: "'c event \<Rightarrow> bool" where
  "is_prompt (ShowInputBox opts) = True"
| "is_prompt e = False"

fun is_vault_read :: "'c event \<Rightarrow> bool" where
  "is_vault_read (GetPassword service account) = True"
| "is_vault_read e = False"

fun is_request :: "'c event \<Rightarrow> bool" where
  "is_request (SummaryComponent c d) = True"
| "is_request (MetadataForModules c d) = True"
| "is_request e = False"

text \<open>The events a run added to the trace it started from.\<close>

definition added :: "'c world \<Rightarrow> 'c world \<Rightarrow> 'c event list" where
  "added w w' = drop (length (trace w)) (trace w')"

text \<open>
  The states of the class that a sequence of calls of its public methods can produce,
  in any world and with any arguments, from the field initialisers.
\<close>

inductive reachable :: "('c, 'a, 'm) externals \<Rightarrow> manager \<Rightarrow> bool" for E :: "('c, 'a, 'm) externals" where
  reach_new: "reachable E new_manager"
| reach_activate: "reachable E this \<Longrightarrow> reachable E (snd (activate E w this))"
| reach_connect: "reachable E this \<Longrightarrow> reachable E (snd (snd (connect E w this)))"
| reach_getComponents: "reachable E this \<Longrightarrow> reachable E (snd (snd (getComponents E cd w this)))"
| reach_getGoCenterModules: "reachable E this \<Longrightarrow> reachable E (snd (snd (getGoCenterModules E cd w this)))"

subsection \<open>Sample collaborators\<close>

text \<open>
  Concrete collaborators on which the theorems below are run. \<open>sample_sha256\<close> is
  SHA-256 in lower-case hexadecimal on the three strings the examples hash, and
  \<open>sample_new_URL\<close> is the WHATWG parser on the two proxy addresses the examples
  configure; elsewhere the first returns the digest of the empty string and the second
  rejects its argument, as \<^verbatim>\<open>new URL('not a url')\<close> does. \<open>sample_new_XrayClient\<close> is
  the constructor of \<^verbatim>\<open>xray-client-js\<close>, which starts with
  \<^verbatim>\<open>if (!serverUrl) throw new Error('Xray client : must provide serverUrl')\<close>. In
  \<open>blank_world\<close> no write is rejected; \<open>locked_world\<close> is a world whose key chain
  is locked.
\<close>

definition sample_sha256 :: "string \<Rightarrow> string" where
  "sample_sha256 s =
     (if s = ''https://old.examplealice'' then ''5840f1eb27130c4e43c5b3330c5d1e6e925634664223bea7d692f6469354d5ea''
      else if s = ''https://new.examplebob'' then ''0df4b9bec1d91dc6588d1cf50865d1e81bd4f1bb3fe7af17276fda44ada011d5''
      else if s = ''https://x.examplebob'' then ''6de4539c2c694be341aac51417ff0ddd46fbf9e410cda76a0e56d21d3393d66e''
      else ''e3b0c44298fc1c149afbf4c8996fb92427ae41e4649b934ca495991b7852b855'')"

definition sample_new_URL :: "string \<Rightarrow> URL option" where
  "sample_new_URL s =
     (if s = ''http://proxy.example:8080''
      then Some \<lparr>url_protocol = ''http:'', url_host = ''proxy.example:8080'', url_port = ''8080''\<rparr>
      else if s = ''http://proxy.example''
      then Some \<lparr>url_protocol = ''http:'', url_host = ''proxy.example'', url_port = []\<rparr>
      else None)"

definition sample_new_XrayClient :: "IClientConfig \<Rightarrow> string option" where
  "sample_new_XrayClient clientConfig =
     (if truthy (serverUrl clientConfig) then None else Some ''Xray client : must provide serverUrl'')"

definition sample_externals :: "bool \<Rightarrow> (string, string, string) externals" where
  "sample_externals ok =
     \<lparr>package_version = ''1.0.0'',
      sha256_hex = sample_sha256,
      new_URL = sample_new_URL,
      new_XrayClient = sample_new_XrayClient,
      checkConnection = (\<lambda>c. ok),
      summary_component = (\<lambda>c d. if username c = Some [] then Inl ''401 Unauthorized'' else Inr d),
      getMetadataForModules = (\<lambda>c d. Inr d)\<rparr>"

definition blank_world :: "string world" where
  "blank_world = \<lparr>globalState = Map.empty, keychain = Map.empty, configuration = Map.empty,
                  answers = [], rejects = (\<lambda>e. None), trace = []\<rparr>"

definition proxied_world :: "string world" where
  "proxied_world = blank_world\<lparr>configuration :=
      [''http.proxy'' \<mapsto> ''http://proxy.example:8080'', ''http.proxyAuthorization'' \<mapsto> ''Basic dXNlcjpwdw=='']\<rparr>"

definition sample_manager :: manager where
  "sample_manager = \<lparr>this_url = ''https://x.example'', this_username = ''bob'', this_password = ''secret''\<rparr>"

definition half_stored_world :: "string world" where
  "half_stored_world = blank_world\<lparr>globalState := [XRAY_URL_KEY \<mapsto> ''https://x.example'']\<rparr>"

definition stored_world :: "string world" where
  "stored_world = blank_world
     \<lparr>globalState := [XRAY_URL_KEY \<mapsto> ''https://x.example'', XRAY_USERNAME_KEY \<mapsto> ''bob''],
      keychain := [(SERVICE_ID, ''6de4539c2c694be341aac51417ff0ddd46fbf9e410cda76a0e56d21d3393d66e'') \<mapsto> ''secret'']\<rparr>"

definition typing_world :: "string world" where
  "typing_world = blank_world\<lparr>answers := [Some ''https://x.example'', Some ''bob'', Some ''secret'']\<rparr>"

definition retyping_world :: "string world" where
  "retyping_world = blank_world
     \<lparr>globalState := [XRAY_URL_KEY \<mapsto> ''https://old.example'', XRAY_USERNAME_KEY \<mapsto> ''alice''],
      answers := [Some ''https://new.example'', Some ''bob'', Some ''secret'']\<rparr>"

definition locked_keychain :: "string event \<Rightarrow> string option" where
  "locked_keychain e = (case e of SetPassword service account pw \<Rightarrow> Some ''The keychain is locked'' | _ \<Rightarrow> None)"

definition locked_world :: "string world" where
  "locked_world = typing_world\<lparr>rejects := locked_keychain\<rparr>"

section \<open>Properties\<close>

subsection \<open>Proxy resolution\<close>

text \<open>
  C7. Proxy resolution returns \<^verbatim>\<open>false\<close> when \<^verbatim>\<open>http.proxySupport\<close> is \<^verbatim>\<open>'off'\<close>,
  whatever \<^verbatim>\<open>http.proxy\<close> holds. Otherwise, when \<^verbatim>\<open>http.proxy\<close> holds a URL (a
  non-empty string that \<^verbatim>\<open>new URL\<close> parses), the result is a configuration with the
  protocol and the host of that URL, and with a port exactly when the port of the URL is
  not empty; and when \<^verbatim>\<open>http.proxy\<close> is unset or empty, the result is the empty
  configuration object.
\<close>

theorem getProxyConfig_cases:
  "(configuration w ''http.proxySupport'' = Some ''off'' \<longrightarrow> getProxyConfig E w = Inr PFalse) \<and>
   (configuration w ''http.proxySupport'' \<noteq> Some ''off'' \<and> configuration w ''http.proxy'' = Some u \<and>
    u \<noteq> [] \<and> new_URL E u = Some uri \<longrightarrow>
      getProxyConfig E w =
        Inr (PConfig \<lparr>protocol = Some (url_protocol uri), host = Some (url_host uri),
                       port = (if url_port uri = [] then None else Some (unary_plus (url_port uri)))\<rparr>)) \<and>
   (configuration w ''http.proxySupport'' \<noteq> Some ''off'' \<and> \<not> truthy (configuration w ''http.proxy'') \<longrightarrow>
      getProxyConfig E w = Inr (PConfig \<lparr>protocol = None, host = None, port = None\<rparr>))"
  by (auto simp: getProxyConfig_def get_default_def truthy_def or_empty_def Let_def split: option.splits)

lemma unary_plus_8080: "unary_plus ''8080'' = Number 8080"
  by (simp add: unary_plus_def)

theorem getProxyConfig_cases_witness:
  "getProxyConfig (sample_externals True)
     (blank_world\<lparr>configuration := [''http.proxySupport'' \<mapsto> ''off'', ''http.proxy'' \<mapsto> ''http://proxy.example:8080'']\<rparr>)
     = Inr PFalse \<and>
   getProxyConfig (sample_externals True)
     (blank_world\<lparr>configuration := [''http.proxy'' \<mapsto> ''http://proxy.example:8080'']\<rparr>)
     = Inr (PConfig \<lparr>protocol = Some ''http:'', host = Some ''proxy.example:8080'', port = Some (Number 8080)\<rparr>) \<and>
   getProxyConfig (sample_externals True)
     (blank_world\<lparr>configuration := [''http.proxySupport'' \<mapsto> ''on'', ''http.proxy'' \<mapsto> ''http://proxy.example'']\<rparr>)
     = Inr (PConfig \<lparr>protocol = Some ''http:'', host = Some ''proxy.example'', port = None\<rparr>) \<and>
   getProxyConfig (sample_externals True) blank_world
     = Inr (PConfig \<lparr>protocol = None, host = None, port = None\<rparr>)"
proof -
  let ?E = "sample_externals True"
  let ?w1 = "blank_world\<lparr>configuration := [''http.proxySupport'' \<mapsto> ''off'', ''http.proxy'' \<mapsto> ''http://proxy.example:8080'']\<rparr>"
  let ?w2 = "blank_world\<lparr>configuration := [''http.proxy'' \<mapsto> ''http://proxy.example:8080'']\<rparr>"
  let ?w3 = "blank_world\<lparr>configuration := [''http.proxySupport'' \<mapsto> ''on'', ''http.proxy'' \<mapsto> ''http://proxy.example'']\<rparr>"
  have a: "getProxyConfig ?E ?w1 = Inr PFalse"
    using getProxyConfig_cases [of ?w1 ?E] by simp
  have b: "getProxyConfig ?E ?w2 =
      Inr (PConfig \<lparr>protocol = Some ''http:'', host = Some ''proxy.example:8080'', port = Some (Number 8080)\<rparr>)"
    using getProxyConfig_cases [of ?w2 ?E "''http://proxy.example:8080''"
        "\<lparr>url_protocol = ''http:'', url_host = ''proxy.example:8080'', url_port = ''8080''\<rparr>"]
    by (simp add: sample_externals_def sample_new_URL_def unary_plus_8080)
  have c: "getProxyConfig ?E ?w3 =
      Inr (PConfig \<lparr>protocol = Some ''http:'', host = Some ''proxy.example'', port = None\<rparr>)"
    using getProxyConfig_cases [of ?w3 ?E "''http://proxy.example''"
        "\<lparr>url_protocol = ''http:'', url_host = ''proxy.example'', url_port = []\<rparr>"]
    by (simp add: sample_externals_def sample_new_URL_def)
  have d: "getProxyConfig ?E blank_world = Inr (PConfig \<lparr>protocol = None, host = None, port = None\<rparr>)"
    using getProxyConfig_cases [of blank_world ?E] by (simp add: blank_world_def truthy_def)
  from a b c d show ?thesis by blast
qed

text \<open>
  A non-empty \<^verbatim>\<open>http.proxy\<close> that \<^verbatim>\<open>new URL\<close> rejects is the one case left: the
  \<^verbatim>\<open>TypeError\<close> of the parser is not caught and leaves \<^verbatim>\<open>getProxyConfig\<close>.
\<close>

lemma getProxyConfig_malformed:
  assumes "configuration w ''http.proxySupport'' \<noteq> Some ''off''"
    and "configuration w ''http.proxy'' = Some u" and "u \<noteq> []"
    and "new_URL E u = None"
  shows "getProxyConfig E w = Inl (TypeError_Invalid_URL u)"
  using assms
  by (auto simp: getProxyConfig_def get_default_def truthy_def or_empty_def split: option.splits)

lemma getProxyConfig_configuration:
  "configuration w' = configuration w \<Longrightarrow> getProxyConfig E w' = getProxyConfig E w"
  by (simp add: getProxyConfig_def)

lemma addProxyAuthHeader_configuration:
  "configuration w' = configuration w \<Longrightarrow> addProxyAuthHeader w' c = addProxyAuthHeader w c"
  by (simp add: addProxyAuthHeader_def)

lemma xrayClientConfig_configuration:
  assumes "configuration w' = configuration w"
  shows "xrayClientConfig E w' this = xrayClientConfig E w this"
proof -
  have "getProxyConfig E w' = getProxyConfig E w"
    by (rule getProxyConfig_configuration [OF assms])
  moreover have "addProxyAuthHeader w' = addProxyAuthHeader w"
    by (rule ext) (rule addProxyAuthHeader_configuration [OF assms])
  ultimately show ?thesis
    by (simp only: xrayClientConfig_def)
qed

lemma createXrayClient_configuration:
  assumes "configuration w' = configuration w"
  shows "createXrayClient E w' this = createXrayClient E w this"
  by (simp only: createXrayClient_def xrayClientConfig_configuration [OF assms])

lemma createXrayClient_Inr:
  "createXrayClient E w this = Inr c \<longleftrightarrow>
     xrayClientConfig E w this = Inr c \<and> new_XrayClient E c = None"
  by (auto simp: createXrayClient_def split: sum.splits option.splits)

lemma addProxyAuthHeader_proxy: "proxy (addProxyAuthHeader w c) = proxy c"
  by (simp add: addProxyAuthHeader_def Let_def)

lemma addProxyAuthHeader_header:
  "headers (addProxyAuthHeader w c) ''Proxy-Authorization'' =
     (if proxy c \<noteq> PFalse \<and> truthy (configuration w ''http.proxyAuthorization'')
      then configuration w ''http.proxyAuthorization''
      else headers c ''Proxy-Authorization'')"
  by (auto simp: addProxyAuthHeader_def Let_def truthy_def or_empty_def split: option.splits)

lemma addProxyAuthHeader_user_agent:
  "headers (addProxyAuthHeader w c) ''User-Agent'' = headers c ''User-Agent''"
  by (simp add: addProxyAuthHeader_def Let_def)

lemma addProxyAuthHeader_credentials:
  "serverUrl (addProxyAuthHeader w c) = serverUrl c \<and>
   username (addProxyAuthHeader w c) = username c \<and>
   password (addProxyAuthHeader w c) = password c"
  by (simp add: addProxyAuthHeader_def Let_def)

subsection \<open>Client configurations\<close>

text \<open>
  C8. A client configuration that \<^verbatim>\<open>createXrayClient\<close> or \<^verbatim>\<open>createGoCenterClient\<close>
  has built, whether or not the constructor of the client then accepts it, carries the proxy that \<^verbatim>\<open>getProxyConfig\<close> resolved, and it has a
  \<^verbatim>\<open>Proxy-Authorization\<close> header if and only if that proxy is not \<^verbatim>\<open>false\<close> and the
  setting \<^verbatim>\<open>http.proxyAuthorization\<close> has a value (a non-empty string, what the test
  \<^verbatim>\<open>if (proxyAuthHeader)\<close> lets through); the header then holds that value. An Xray
  client that was constructed is such a configuration.
\<close>

theorem proxy_authorization_header_iff:
  "(xrayClientConfig E w this = Inr c \<longrightarrow>
      getProxyConfig E w = Inr (proxy c) \<and>
      ((headers c ''Proxy-Authorization'' \<noteq> None) =
         (proxy c \<noteq> PFalse \<and> truthy (configuration w ''http.proxyAuthorization''))) \<and>
      (headers c ''Proxy-Authorization'' \<noteq> None \<longrightarrow>
         headers c ''Proxy-Authorization'' = configuration w ''http.proxyAuthorization'')) \<and>
   (createGoCenterClient E w this = Inr g \<longrightarrow>
      getProxyConfig E w = Inr (proxy g) \<and>
      ((headers g ''Proxy-Authorization'' \<noteq> None) =
         (proxy g \<noteq> PFalse \<and> truthy (configuration w ''http.proxyAuthorization''))) \<and>
      (headers g ''Proxy-Authorization'' \<noteq> None \<longrightarrow>
         headers g ''Proxy-Authorization'' = configuration w ''http.proxyAuthorization'')) \<and>
   (createXrayClient E w this = Inr x \<longrightarrow> xrayClientConfig E w this = Inr x)"
proof (intro conjI impI)
  show "xrayClientConfig E w this = Inr x" if "createXrayClient E w this = Inr x"
    using that by (simp add: createXrayClient_Inr)
next
  assume x: "xrayClientConfig E w this = Inr c"
  then obtain p where p: "getProxyConfig E w = Inr p"
    and c: "c = addProxyAuthHeader w (addUserAgentHeader E
                 \<lparr>serverUrl = Some (this_url this), username = Some (this_username this),
                  password = Some (this_password this), headers = Map.empty, proxy = p\<rparr>)"
    by (auto simp: xrayClientConfig_def split: sum.splits)
  show "getProxyConfig E w = Inr (proxy c)"
    by (simp add: p c addProxyAuthHeader_proxy addUserAgentHeader_def)
  show "(headers c ''Proxy-Authorization'' \<noteq> None) =
         (proxy c \<noteq> PFalse \<and> truthy (configuration w ''http.proxyAuthorization''))"
    by (auto simp: c addProxyAuthHeader_proxy addProxyAuthHeader_header addUserAgentHeader_def truthy_def
        split: option.splits)
  show "headers c ''Proxy-Authorization'' = configuration w ''http.proxyAuthorization''"
    if "headers c ''Proxy-Authorization'' \<noteq> None"
    using that by (auto simp: c addProxyAuthHeader_header addUserAgentHeader_def split: if_splits)
next
  assume x: "createGoCenterClient E w this = Inr g"
  then obtain p where p: "getProxyConfig E w = Inr p"
    and g: "g = addProxyAuthHeader w (addUserAgentHeader E
                 \<lparr>serverUrl = None, username = None, password = None,
                  headers = Map.empty, proxy = p\<rparr>)"
    by (auto simp: createGoCenterClient_def split: sum.splits)
  show "getProxyConfig E w = Inr (proxy g)"
    by (simp add: p g addProxyAuthHeader_proxy addUserAgentHeader_def)
  show "(headers g ''Proxy-Authorization'' \<noteq> None) =
         (proxy g \<noteq> PFalse \<and> truthy (configuration w ''http.proxyAuthorization''))"
    by (auto simp: g addProxyAuthHeader_proxy addProxyAuthHeader_header addUserAgentHeader_def truthy_def
        split: option.splits)
  show "headers g ''Proxy-Authorization'' = configuration w ''http.proxyAuthorization''"
    if "headers g ''Proxy-Authorization'' \<noteq> None"
    using that by (auto simp: g addProxyAuthHeader_header addUserAgentHeader_def split: if_splits)
qed

lemma getProxyConfig_proxied_world:
  "getProxyConfig (sample_externals ok) proxied_world =
     Inr (PConfig \<lparr>protocol = Some ''http:'', host = Some ''proxy.example:8080'', port = Some (Number 8080)\<rparr>)"
  by (simp add: getProxyConfig_def proxied_world_def blank_world_def get_default_def truthy_def
      or_empty_def sample_externals_def sample_new_URL_def unary_plus_def)

lemma getProxyConfig_off:
  "getProxyConfig E (w\<lparr>configuration := (configuration w)(''http.proxySupport'' \<mapsto> ''off'')\<rparr>) = Inr PFalse"
  by (simp add: getProxyConfig_def get_default_def)


theorem proxy_authorization_header_iff_witness:
  "(\<exists>c. xrayClientConfig (sample_externals True) proxied_world sample_manager = Inr c \<and>
        headers c ''Proxy-Authorization'' = Some ''Basic dXNlcjpwdw=='') \<and>
   (\<exists>g. createGoCenterClient (sample_externals True) proxied_world sample_manager = Inr g \<and>
        headers g ''Proxy-Authorization'' = Some ''Basic dXNlcjpwdw=='') \<and>
   (\<exists>c. xrayClientConfig (sample_externals True)
           (proxied_world\<lparr>configuration := (configuration proxied_world)(''http.proxySupport'' \<mapsto> ''off'')\<rparr>)
           sample_manager = Inr c \<and>
        headers c ''Proxy-Authorization'' = None)"
proof -
  let ?E = "sample_externals True"
  let ?off = "proxied_world\<lparr>configuration := (configuration proxied_world)(''http.proxySupport'' \<mapsto> ''off'')\<rparr>"
  obtain c where c: "xrayClientConfig ?E proxied_world sample_manager = Inr c"
    by (simp add: xrayClientConfig_def getProxyConfig_proxied_world)
  obtain g where g: "createGoCenterClient ?E proxied_world sample_manager = Inr g"
    by (simp add: createGoCenterClient_def getProxyConfig_proxied_world)
  obtain d where d: "xrayClientConfig ?E ?off sample_manager = Inr d"
    by (simp add: xrayClientConfig_def getProxyConfig_off)
  have a: "truthy (configuration proxied_world ''http.proxyAuthorization'')"
      "configuration proxied_world ''http.proxyAuthorization'' = Some ''Basic dXNlcjpwdw==''"
    by (simp_all add: proxied_world_def truthy_def)
  note t = proxy_authorization_header_iff
  have "headers c ''Proxy-Authorization'' = Some ''Basic dXNlcjpwdw==''"
    using t [THEN conjunct1, THEN mp, OF c] a getProxyConfig_proxied_world [of True]
    by auto
  moreover have "headers g ''Proxy-Authorization'' = Some ''Basic dXNlcjpwdw==''"
    using t [THEN conjunct2, THEN conjunct1, THEN mp, OF g] a getProxyConfig_proxied_world [of True]
    by auto
  moreover have "headers d ''Proxy-Authorization'' = None"
    using t [THEN conjunct1, THEN mp, OF d] getProxyConfig_off [of ?E proxied_world]
    by auto
  ultimately show ?thesis using c g d by simp
qed

lemma createGoCenterClient_this:
  "createGoCenterClient E w this = createGoCenterClient E w this'"
  by (simp add: createGoCenterClient_def)

text \<open>
  C9. The client configuration built for the GoCenter service does not depend on the
  credentials held in memory: it is the same for any two states of the manager, and so
  are the result and the world of \<^verbatim>\<open>getGoCenterModules\<close>. It has no \<^verbatim>\<open>serverUrl\<close>,
  \<^verbatim>\<open>username\<close> or \<^verbatim>\<open>password\<close>; it carries the \<^verbatim>\<open>User-Agent\<close> header and the
  resolved proxy, and it is the configuration the metadata request goes out with.
\<close>

theorem goCenter_client_without_credentials:
  "createGoCenterClient E w this = createGoCenterClient E w this' \<and>
   fst (getGoCenterModules E cd w this) = fst (getGoCenterModules E cd w this') \<and>
   fst (snd (getGoCenterModules E cd w this)) = fst (snd (getGoCenterModules E cd w this')) \<and>
   (createGoCenterClient E w this = Inr g \<longrightarrow>
      serverUrl g = None \<and> username g = None \<and> password g = None \<and>
      headers g ''User-Agent'' = Some (USER_AGENT E) \<and>
      getProxyConfig E w = Inr (proxy g) \<and>
      added w (fst (snd (getGoCenterModules E cd w this))) = [MetadataForModules g cd])"
proof (intro conjI impI)
  show "createGoCenterClient E w this = createGoCenterClient E w this'"
    by (rule createGoCenterClient_this)
  show "fst (getGoCenterModules E cd w this) = fst (getGoCenterModules E cd w this')"
    by (simp add: getGoCenterModules_def createGoCenterClient_this [of E w this this'] Let_def
        split: sum.splits)
  show "fst (snd (getGoCenterModules E cd w this)) = fst (snd (getGoCenterModules E cd w this'))"
    by (simp add: getGoCenterModules_def createGoCenterClient_this [of E w this this'] Let_def
        split: sum.splits)
next
  assume x: "createGoCenterClient E w this = Inr g"
  then obtain p where p: "getProxyConfig E w = Inr p"
    and g: "g = addProxyAuthHeader w (addUserAgentHeader E
                 \<lparr>serverUrl = None, username = None, password = None,
                  headers = Map.empty, proxy = p\<rparr>)"
    by (auto simp: createGoCenterClient_def split: sum.splits)
  show "serverUrl g = None" "username g = None" "password g = None"
    by (simp_all add: g addProxyAuthHeader_credentials addUserAgentHeader_def)
  show "headers g ''User-Agent'' = Some (USER_AGENT E)"
    by (simp add: g addProxyAuthHeader_user_agent addUserAgentHeader_def)
  show "getProxyConfig E w = Inr (proxy g)"
    by (simp add: p g addProxyAuthHeader_proxy addUserAgentHeader_def)
  show "added w (fst (snd (getGoCenterModules E cd w this))) = [MetadataForModules g cd]"
    by (simp add: getGoCenterModules_def x added_def emit_def Let_def split: sum.splits)
qed

theorem goCenter_client_without_credentials_witness:
  "createGoCenterClient (sample_externals True) proxied_world sample_manager =
     createGoCenterClient (sample_externals True) proxied_world new_manager \<and>
   (\<exists>g. createGoCenterClient (sample_externals True) proxied_world sample_manager = Inr g \<and>
        serverUrl g = None \<and> username g = None \<and> password g = None \<and>
        headers g ''User-Agent'' = Some ''jfrog-vscode-extension/1.0.0'' \<and>
        proxy g = PConfig \<lparr>protocol = Some ''http:'', host = Some ''proxy.example:8080'',
                             port = Some (Number 8080)\<rparr>)"
proof -
  let ?E = "sample_externals True"
  obtain g where g: "createGoCenterClient ?E proxied_world sample_manager = Inr g"
    by (simp add: createGoCenterClient_def getProxyConfig_proxied_world)
  note t = goCenter_client_without_credentials [of ?E proxied_world sample_manager new_manager "[]" g]
  have a: "createGoCenterClient ?E proxied_world sample_manager =
        createGoCenterClient ?E proxied_world new_manager"
    using t by blast
  have b: "serverUrl g = None \<and> username g = None \<and> password g = None \<and>
        headers g ''User-Agent'' = Some ''jfrog-vscode-extension/1.0.0'' \<and>
        proxy g = PConfig \<lparr>protocol = Some ''http:'', host = Some ''proxy.example:8080'',
                             port = Some (Number 8080)\<rparr>"
    using t g getProxyConfig_proxied_world [of True]
    by (simp add: USER_AGENT_def sample_externals_def)
  from a b g show ?thesis by blast
qed

subsection \<open>Populating the credentials\<close>

lemma world_answers_id: "answers w = [] \<Longrightarrow> w\<lparr>answers := []\<rparr> = w"
  by (cases w) simp

lemma showInputBox_eq:
  "showInputBox opts w =
     (case answers w of [] \<Rightarrow> None | a # as \<Rightarrow> a,
      w\<lparr>answers := tl (answers w), trace := trace w @ [ShowInputBox opts]\<rparr>)"
  by (cases "answers w") (simp_all add: showInputBox_def emit_def world_answers_id)

lemma retrieveUrl_eq:
  "retrieveUrl prompt w this =
     (if prompt then or_empty (case answers w of [] \<Rightarrow> None | a # as \<Rightarrow> a)
      else or_empty (globalState w XRAY_URL_KEY),
      w\<lparr>answers := (if prompt then tl (answers w) else answers w),
        trace := trace w @ GlobalStateGet XRAY_URL_KEY #
          (if prompt then [ShowInputBox \<lparr>ib_prompt = ''Enter Xray url'',
                                ib_value = Some (if this_url this \<noteq> [] then this_url this else ''https://''),
                                ib_password = False,
                                ib_ignoreFocusOut = True,
                                ib_validateInput = validateUrl\<rparr>] else [])\<rparr>)"
  by (simp add: retrieveUrl_def showInputBox_eq get_globalState_def emit_def)

lemma retrieveUsername_eq:
  "retrieveUsername prompt w this =
     (if prompt then or_empty (case answers w of [] \<Rightarrow> None | a # as \<Rightarrow> a)
      else or_empty (globalState w XRAY_USERNAME_KEY),
      w\<lparr>answers := (if prompt then tl (answers w) else answers w),
        trace := trace w @ GlobalStateGet XRAY_USERNAME_KEY #
          (if prompt then [ShowInputBox \<lparr>ib_prompt = ''Enter Xray username'',
                                ib_value = Some (this_username this),
                                ib_password = False,
                                ib_ignoreFocusOut = True,
                                ib_validateInput = validateFieldNotEmpty\<rparr>] else [])\<rparr>)"
  by (simp add: retrieveUsername_def showInputBox_eq get_globalState_def emit_def)

lemma retrievePassword_eq:
  "retrievePassword E prompt url usr w =
     (if prompt then or_empty (case answers w of [] \<Rightarrow> None | a # as \<Rightarrow> a)
      else or_empty (keychain w (SERVICE_ID, createAccountId E url usr)),
      w\<lparr>answers := (if prompt then tl (answers w) else answers w),
        trace := trace w @ GetPassword SERVICE_ID (createAccountId E url usr) #
          (if prompt then [ShowInputBox \<lparr>ib_prompt = ''Enter Xray password'',
                                ib_value = None,
                                ib_password = True,
                                ib_ignoreFocusOut = True,
                                ib_validateInput = validateFieldNotEmpty\<rparr>] else [])\<rparr>)"
  by (simp add: retrievePassword_def showInputBox_eq keytar_getPassword_def emit_def)

lemma added_trans:
  assumes "trace w1 = trace w @ added w w1" and "trace w2 = trace w1 @ added w1 w2"
  shows "added w w2 = added w w1 @ added w1 w2" and "trace w2 = trace w @ added w w2"
proof -
  have "trace w2 = trace w @ (added w w1 @ added w1 w2)"
    using assms by simp
  then show "added w w2 = added w w1 @ added w1 w2"
    by (simp add: added_def [of w w2])
  then show "trace w2 = trace w @ added w w2"
    using \<open>trace w2 = trace w @ (added w w1 @ added w1 w2)\<close> by simp
qed

lemma added_emit: "added w (emit e w) = [e]" "trace (emit e w) = trace w @ added w (emit e w)"
  by (simp_all add: added_def emit_def)

lemma retrieveUrl_frame:
  "globalState (snd (retrieveUrl prompt w this)) = globalState w"
  "keychain (snd (retrieveUrl prompt w this)) = keychain w"
  "configuration (snd (retrieveUrl prompt w this)) = configuration w"
  "trace (snd (retrieveUrl prompt w this)) = trace w @ added w (snd (retrieveUrl prompt w this))"
  "filter is_write (added w (snd (retrieveUrl prompt w this))) = []"
  "filter is_vault_read (added w (snd (retrieveUrl prompt w this))) = []"
  "rejects (snd (retrieveUrl prompt w this)) = rejects w"
  by (simp_all add: retrieveUrl_eq added_def)

lemma retrieveUrl_quiet:
  "filter is_prompt (added w (snd (retrieveUrl False w this))) = []"
  "answers (snd (retrieveUrl False w this)) = answers w"
  by (simp_all add: retrieveUrl_eq added_def)

lemma retrieveUsername_frame:
  "globalState (snd (retrieveUsername prompt w this)) = globalState w"
  "keychain (snd (retrieveUsername prompt w this)) = keychain w"
  "configuration (snd (retrieveUsername prompt w this)) = configuration w"
  "trace (snd (retrieveUsername prompt w this)) = trace w @ added w (snd (retrieveUsername prompt w this))"
  "filter is_write (added w (snd (retrieveUsername prompt w this))) = []"
  "filter is_vault_read (added w (snd (retrieveUsername prompt w this))) = []"
  "rejects (snd (retrieveUsername prompt w this)) = rejects w"
  by (simp_all add: retrieveUsername_eq added_def)

lemma retrieveUsername_quiet:
  "filter is_prompt (added w (snd (retrieveUsername False w this))) = []"
  "answers (snd (retrieveUsername False w this)) = answers w"
  by (simp_all add: retrieveUsername_eq added_def)

lemma retrievePassword_frame:
  "globalState (snd (retrievePassword E prompt url usr w)) = globalState w"
  "keychain (snd (retrievePassword E prompt url usr w)) = keychain w"
  "configuration (snd (retrievePassword E prompt url usr w)) = configuration w"
  "trace (snd (retrievePassword E prompt url usr w)) = trace w @ added w (snd (retrievePassword E prompt url usr w))"
  "filter is_write (added w (snd (retrievePassword E prompt url usr w))) = []"
  "filter is_vault_read (added w (snd (retrievePassword E prompt url usr w))) =
     [GetPassword SERVICE_ID (createAccountId E url usr)]"
  "rejects (snd (retrievePassword E prompt url usr w)) = rejects w"
  by (simp_all add: retrievePassword_eq added_def)

lemma retrievePassword_quiet:
  "filter is_prompt (added w (snd (retrievePassword E False url usr w))) = []"
  "answers (snd (retrievePassword E False url usr w)) = answers w"
  by (simp_all add: retrievePassword_eq added_def)

lemma populate_stages:
  assumes "retrieveUrl prompt w this = (url, w1)"
    and "retrieveUsername prompt w1 this = (usr, w2)"
    and "retrievePassword E prompt url usr w2 = (pwd, w3)"
  shows "populateCredentials E prompt w this =
     (if url = [] then (False, w1, this)
      else if usr = [] then (False, w2, this)
      else if pwd = [] then (False, w3, this)
      else (True, w3, \<lparr>this_url = url, this_username = usr, this_password = pwd\<rparr>))"
  using assms by (simp add: populateCredentials_def)

text \<open>
  C3. Let \<open>url\<close>, \<open>usr\<close> and \<open>pwd\<close> be what the three stages of
  \<^verbatim>\<open>populateCredentials\<close> yield, with either value of \<open>prompt\<close>. The method returns
  true exactly when all three are non-empty. When one of them is empty it returns false
  and leaves the three fields as they were; when none is, the three fields are assigned
  together, to these three values.
\<close>
theorem populateCredentials_all_or_nothing:
  assumes "retrieveUrl prompt w this = (url, w1)"
    and "retrieveUsername prompt w1 this = (usr, w2)"
    and "retrievePassword E prompt url usr w2 = (pwd, w3)"
  shows "(fst (populateCredentials E prompt w this) \<longleftrightarrow> url \<noteq> [] \<and> usr \<noteq> [] \<and> pwd \<noteq> []) \<and>
         (url = [] \<or> usr = [] \<or> pwd = [] \<longrightarrow>
            fst (populateCredentials E prompt w this) = False \<and>
            snd (snd (populateCredentials E prompt w this)) = this) \<and>
         (url \<noteq> [] \<and> usr \<noteq> [] \<and> pwd \<noteq> [] \<longrightarrow>
            snd (snd (populateCredentials E prompt w this)) =
              \<lparr>this_url = url, this_username = usr, this_password = pwd\<rparr>)"
  by (simp add: populate_stages [OF assms])

lemma populate_world:
  assumes "populateCredentials E prompt w this = (ok, w', this')"
  shows "globalState w' = globalState w"
    and "keychain w' = keychain w"
    and "configuration w' = configuration w"
    and "trace w' = trace w @ added w w'"
    and "filter is_write (added w w') = []"
    and "\<not> prompt \<Longrightarrow> filter is_prompt (added w w') = []"
    and "\<not> prompt \<Longrightarrow> answers w' = answers w"
    and "rejects w' = rejects w"
proof -
  obtain url w1 where 1: "retrieveUrl prompt w this = (url, w1)"
    by (cases "retrieveUrl prompt w this")
  obtain usr w2 where 2: "retrieveUsername prompt w1 this = (usr, w2)"
    by (cases "retrieveUsername prompt w1 this")
  obtain pwd w3 where 3: "retrievePassword E prompt url usr w2 = (pwd, w3)"
    by (cases "retrievePassword E prompt url usr w2")
  have w1: "w1 = snd (retrieveUrl prompt w this)" using 1 by simp
  have w2: "w2 = snd (retrieveUsername prompt w1 this)" using 2 by simp
  have w3: "w3 = snd (retrievePassword E prompt url usr w2)" using 3 by simp
  note a = retrieveUrl_frame [where prompt = prompt and w = w and this = this, folded w1]
  note b = retrieveUsername_frame [where prompt = prompt and w = w1 and this = this, folded w2]
  note c = retrievePassword_frame [where E = E and prompt = prompt and url = url and usr = usr and w = w2, folded w3]
  note ab = added_trans [OF a(4) b(4)]
  note abc = added_trans [OF ab(2) c(4)]
  have w': "w' = w1 \<or> w' = w2 \<or> w' = w3"
    using assms by (auto simp: populate_stages [OF 1 2 3] split: if_splits)
  show "globalState w' = globalState w" using w' a(1) b(1) c(1) by auto
  show "keychain w' = keychain w" using w' a(2) b(2) c(2) by auto
  show "configuration w' = configuration w" using w' a(3) b(3) c(3) by auto
  show "rejects w' = rejects w" using w' a(7) b(7) c(7) by auto
  show "trace w' = trace w @ added w w'" using w' a(4) ab(2) abc(2) by auto
  show "filter is_write (added w w') = []"
    using w' a(5) b(5) c(5) by (auto simp: ab(1) abc(1))
  {
    assume p: "\<not> prompt"
    have w1': "w1 = snd (retrieveUrl False w this)" using w1 p by simp
    have w2': "w2 = snd (retrieveUsername False w1 this)" using w2 p by simp
    have w3': "w3 = snd (retrievePassword E False url usr w2)" using w3 p by simp
    note a' = retrieveUrl_quiet [where w = w and this = this, folded w1']
    note b' = retrieveUsername_quiet [where w = w1 and this = this, folded w2']
    note c' = retrievePassword_quiet [where E = E and url = url and usr = usr and w = w2, folded w3']
    show "filter is_prompt (added w w') = []"
      using w' a'(1) b'(1) c'(1) by (auto simp: ab(1) abc(1))
    show "answers w' = answers w"
      using w' a'(2) b'(2) c'(2) by auto
  }
qed

lemmas run_defs =
  populateCredentials_def retrieveUrl_eq retrieveUsername_eq retrievePassword_eq
  blank_world_def or_empty_def XRAY_URL_KEY_def XRAY_USERNAME_KEY_def SERVICE_ID_def
  createAccountId_def sample_externals_def sample_sha256_def

lemma run_typing:
  "fst (populateCredentials (sample_externals ok) True typing_world new_manager) = True"
  "snd (snd (populateCredentials (sample_externals ok) True typing_world new_manager)) = sample_manager"
  "filter is_vault_read (trace (fst (snd (populateCredentials (sample_externals ok) True typing_world new_manager)))) =
     [GetPassword SERVICE_ID ''6de4539c2c694be341aac51417ff0ddd46fbf9e410cda76a0e56d21d3393d66e'']"
  "answers (fst (snd (populateCredentials (sample_externals ok) True typing_world new_manager))) = []"
  by (simp_all add: run_defs typing_world_def new_manager_def sample_manager_def)

lemma triple_collapse: "p = (fst p, fst (snd p), snd (snd p))"
  by simp

theorem populateCredentials_all_or_nothing_witness:
  "fst (populateCredentials (sample_externals True) False half_stored_world sample_manager) = False \<and>
   snd (snd (populateCredentials (sample_externals True) False half_stored_world sample_manager)) = sample_manager \<and>
   fst (populateCredentials (sample_externals True) True typing_world new_manager) = True \<and>
   snd (snd (populateCredentials (sample_externals True) True typing_world new_manager)) =
     \<lparr>this_url = ''https://x.example'', this_username = ''bob'', this_password = ''secret''\<rparr>"
proof -
  let ?E = "sample_externals True"
  note t = populateCredentials_all_or_nothing [OF surjective_pairing surjective_pairing surjective_pairing]
  have "fst (retrieveUsername False (snd (retrieveUrl False half_stored_world sample_manager)) sample_manager) = []"
    by (simp add: retrieveUrl_eq retrieveUsername_eq half_stored_world_def blank_world_def or_empty_def
        XRAY_URL_KEY_def XRAY_USERNAME_KEY_def)
  then have a: "fst (populateCredentials ?E False half_stored_world sample_manager) = False \<and>
      snd (snd (populateCredentials ?E False half_stored_world sample_manager)) = sample_manager"
    using t [where prompt = False and w = half_stored_world and this = sample_manager and E = ?E]
    by blast
  have "fst (retrieveUrl True typing_world new_manager) = ''https://x.example''"
    "fst (retrieveUsername True (snd (retrieveUrl True typing_world new_manager)) new_manager) = ''bob''"
    "fst (retrievePassword ?E True ''https://x.example'' ''bob''
       (snd (retrieveUsername True (snd (retrieveUrl True typing_world new_manager)) new_manager))) = ''secret''"
    by (simp_all add: retrieveUrl_eq retrieveUsername_eq retrievePassword_eq typing_world_def
        blank_world_def or_empty_def)
  then have b: "fst (populateCredentials ?E True typing_world new_manager) = True \<and>
      snd (snd (populateCredentials ?E True typing_world new_manager)) =
        \<lparr>this_url = ''https://x.example'', this_username = ''bob'', this_password = ''secret''\<rparr>"
    using t [where prompt = True and w = typing_world and this = new_manager and E = ?E]
    by simp
  from a b show ?thesis by blast
qed

lemma getComponents_world:
  "fst (snd (getComponents E cd w this)) =
     (let w1 = (if areCredentialsSet this then w else fst (snd (populateCredentials E False w this)))
      in case createXrayClient E w1 (snd (snd (getComponents E cd w this))) of
           Inl e \<Rightarrow> w1
         | Inr c \<Rightarrow> emit (SummaryComponent c cd) w1)"
  by (simp add: getComponents_def Let_def split: sum.splits prod.splits)

text \<open>
  C6. With \<open>prompt = false\<close>, \<^verbatim>\<open>populateCredentials\<close> shows no input box: the events it
  adds to the trace contain no \<open>ShowInputBox\<close>, and none of the pending answers is
  consumed. The same holds of \<^verbatim>\<open>activate\<close> and of \<^verbatim>\<open>getComponents\<close>, which only
  populate in that mode.
\<close>
theorem no_prompt_when_prompt_is_false:
  "trace (fst (snd (populateCredentials E False w this))) =
     trace w @ added w (fst (snd (populateCredentials E False w this))) \<and>
   filter is_prompt (added w (fst (snd (populateCredentials E False w this)))) = [] \<and>
   answers (fst (snd (populateCredentials E False w this))) = answers w \<and>
   trace (fst (activate E w this)) = trace w @ added w (fst (activate E w this)) \<and>
   filter is_prompt (added w (fst (activate E w this))) = [] \<and>
   answers (fst (activate E w this)) = answers w \<and>
   trace (fst (snd (getComponents E cd w this))) =
     trace w @ added w (fst (snd (getComponents E cd w this))) \<and>
   filter is_prompt (added w (fst (snd (getComponents E cd w this)))) = [] \<and>
   answers (fst (snd (getComponents E cd w this))) = answers w"
proof -
  let ?w1 = "fst (snd (populateCredentials E False w this))"
  note p = populate_world [OF triple_collapse, where E = E and prompt = False and w = w and this = this]
  have p1: "trace ?w1 = trace w @ added w ?w1" by (rule p(4))
  have p2: "filter is_prompt (added w ?w1) = []" by (rule p(6)) simp
  have p3: "answers ?w1 = answers w" by (rule p(7)) simp
  have a: "fst (activate E w this) = ?w1" by (simp add: activate_def)
  let ?g = "fst (snd (getComponents E cd w this))"
  have g: "trace ?g = trace w @ added w ?g \<and> filter is_prompt (added w ?g) = [] \<and> answers ?g = answers w"
  proof -
    define w1 where "w1 = (if areCredentialsSet this then w else ?w1)"
    have w1: "trace w1 = trace w @ added w w1 \<and> filter is_prompt (added w w1) = [] \<and> answers w1 = answers w"
    proof (cases "areCredentialsSet this")
      case True
      then have "w1 = w" by (simp add: w1_def)
      then show ?thesis by (simp add: added_def)
    next
      case False
      then have "w1 = ?w1" by (simp add: w1_def)
      then show ?thesis using p1 p2 p3 by blast
    qed
    note w1 = w1 [THEN conjunct1] w1 [THEN conjunct2, THEN conjunct1] w1 [THEN conjunct2, THEN conjunct2]
    have "?g = w1 \<or> (\<exists>c. ?g = emit (SummaryComponent c cd) w1)"
      unfolding getComponents_world [of E cd w this] w1_def [symmetric]
      by (auto simp: Let_def split: sum.splits)
    then show ?thesis
    proof
      assume "?g = w1"
      then show ?thesis using w1 by blast
    next
      assume "\<exists>c. ?g = emit (SummaryComponent c cd) w1"
      then obtain c where c: "?g = emit (SummaryComponent c cd) w1" ..
      note e = added_trans [OF w1(1) added_emit(2) [where w = w1 and e = "SummaryComponent c cd"]]
      have "answers (emit (SummaryComponent c cd) w1) = answers w"
        using w1(3) by (simp add: emit_def)
      moreover have "filter is_prompt (added w (emit (SummaryComponent c cd) w1)) = []"
        by (simp add: e(1) w1(2) added_emit(1))
      ultimately show ?thesis
        unfolding c using e(2) by blast
    qed
  qed
  show ?thesis unfolding a using p1 p2 p3 g by blast
qed

lemma run_stored_answers:
  "populateCredentials (sample_externals ok) False (stored_world\<lparr>answers := as\<rparr>) new_manager =
     (True,
      stored_world\<lparr>answers := as,
        trace := [GlobalStateGet XRAY_URL_KEY, GlobalStateGet XRAY_USERNAME_KEY,
         GetPassword SERVICE_ID ''6de4539c2c694be341aac51417ff0ddd46fbf9e410cda76a0e56d21d3393d66e'']\<rparr>,
      sample_manager)"
  by (simp add: run_defs stored_world_def new_manager_def sample_manager_def)

lemma xrayClientConfig_no_proxy_settings:
  "configuration w = Map.empty \<Longrightarrow>
   xrayClientConfig E w this =
     Inr \<lparr>serverUrl = Some (this_url this), username = Some (this_username this),
          password = Some (this_password this), headers = [''User-Agent'' \<mapsto> USER_AGENT E],
          proxy = PConfig \<lparr>protocol = None, host = None, port = None\<rparr>\<rparr>"
  by (simp add: xrayClientConfig_def getProxyConfig_def get_default_def truthy_def
      addProxyAuthHeader_def addUserAgentHeader_def)

lemma createXrayClient_no_proxy_settings:
  assumes "configuration w = Map.empty" and "this_url this \<noteq> []"
  shows "createXrayClient (sample_externals ok) w this =
     Inr \<lparr>serverUrl = Some (this_url this), username = Some (this_username this),
          password = Some (this_password this),
          headers = [''User-Agent'' \<mapsto> USER_AGENT (sample_externals ok)],
          proxy = PConfig \<lparr>protocol = None, host = None, port = None\<rparr>\<rparr>"
  using assms(2)
  by (simp add: createXrayClient_def xrayClientConfig_no_proxy_settings [OF assms(1)])
     (simp add: sample_externals_def sample_new_XrayClient_def truthy_def)

lemma run_getComponents_stored:
  "getComponents (sample_externals ok) cd (stored_world\<lparr>answers := as\<rparr>) new_manager =
     (Inr cd,
      stored_world\<lparr>answers := as,
        trace := [GlobalStateGet XRAY_URL_KEY, GlobalStateGet XRAY_USERNAME_KEY,
         GetPassword SERVICE_ID ''6de4539c2c694be341aac51417ff0ddd46fbf9e410cda76a0e56d21d3393d66e'',
         SummaryComponent
           \<lparr>serverUrl = Some ''https://x.example'', username = Some ''bob'',
            password = Some ''secret'', headers = [''User-Agent'' \<mapsto> ''jfrog-vscode-extension/1.0.0''],
            proxy = PConfig \<lparr>protocol = None, host = None, port = None\<rparr>\<rparr> cd]\<rparr>,
      sample_manager)"
proof -
  have c: "configuration (stored_world\<lparr>answers := as,
        trace := [GlobalStateGet XRAY_URL_KEY, GlobalStateGet XRAY_USERNAME_KEY,
         GetPassword SERVICE_ID ''6de4539c2c694be341aac51417ff0ddd46fbf9e410cda76a0e56d21d3393d66e'']\<rparr>) = Map.empty"
    by (simp add: stored_world_def blank_world_def)
  have n: "\<not> areCredentialsSet new_manager"
    by (simp add: areCredentialsSet_def new_manager_def)
  have u: "this_url sample_manager \<noteq> []"
    by (simp add: sample_manager_def)
  have s: "summary_component (sample_externals ok) x cd = Inr cd" if "username x = Some ''bob''" for x
    using that by (simp add: sample_externals_def)
  show ?thesis
    unfolding getComponents_def
    by (simp add: n run_stored_answers createXrayClient_no_proxy_settings [OF c u] s emit_def)
       (simp add: USER_AGENT_def sample_manager_def sample_externals_def)
qed

theorem no_prompt_when_prompt_is_false_witness:
  "map is_request (trace (fst (snd (getComponents (sample_externals True) [''npm://lodash:4.17.0'']
      (stored_world\<lparr>answers := [Some ''https://evil.example'']\<rparr>) new_manager)))) =
     [False, False, False, True] \<and>
   filter is_prompt (trace (fst (snd (getComponents (sample_externals True) [''npm://lodash:4.17.0'']
      (stored_world\<lparr>answers := [Some ''https://evil.example'']\<rparr>) new_manager)))) = [] \<and>
   answers (fst (snd (getComponents (sample_externals True) [''npm://lodash:4.17.0'']
      (stored_world\<lparr>answers := [Some ''https://evil.example'']\<rparr>) new_manager))) = [Some ''https://evil.example'']"
proof -
  let ?w = "stored_world\<lparr>answers := [Some ''https://evil.example'']\<rparr>"
  let ?g = "fst (snd (getComponents (sample_externals True) [''npm://lodash:4.17.0''] ?w new_manager))"
  note t = no_prompt_when_prompt_is_false [of "sample_externals True" ?w new_manager "[''npm://lodash:4.17.0'']"]
  have "trace ?w = []" by (simp add: stored_world_def blank_world_def)
  then have "added ?w ?g = trace ?g" by (simp add: added_def)
  then have a: "filter is_prompt (trace ?g) = []" "answers ?g = [Some ''https://evil.example'']"
    using t by simp_all
  have b: "map is_request (trace ?g) = [False, False, False, True]"
    by (simp add: run_getComponents_stored)
  from a b show ?thesis by simp
qed

lemma populate_vault_reads:
  assumes "retrieveUrl prompt w this = (url, w1)"
    and "retrieveUsername prompt w1 this = (usr, w2)"
  shows "filter is_vault_read (added w (fst (snd (populateCredentials E prompt w this)))) =
           (if url = [] \<or> usr = [] then [] else [GetPassword SERVICE_ID (createAccountId E url usr)])"
proof -
  obtain pwd w3 where 3: "retrievePassword E prompt url usr w2 = (pwd, w3)"
    by (cases "retrievePassword E prompt url usr w2")
  have w1: "w1 = snd (retrieveUrl prompt w this)" using assms(1) by simp
  have w2: "w2 = snd (retrieveUsername prompt w1 this)" using assms(2) by simp
  have w3: "w3 = snd (retrievePassword E prompt url usr w2)" using 3 by simp
  note a = retrieveUrl_frame [where prompt = prompt and w = w and this = this, folded w1]
  note b = retrieveUsername_frame [where prompt = prompt and w = w1 and this = this, folded w2]
  note c = retrievePassword_frame [where E = E and prompt = prompt and url = url and usr = usr and w = w2, folded w3]
  note ab = added_trans [OF a(4) b(4)]
  note abc = added_trans [OF ab(2) c(4)]
  show ?thesis
    by (simp add: populate_stages [OF assms 3] a(6) ab(1) b(6) abc(1) c(6))
qed

text \<open>
  C4, as amended. \<^verbatim>\<open>populateCredentials\<close> looks the password up in the vault at most
  once, under the account id of the url and the username that its first two stages
  returned. With \<open>prompt = false\<close> these are the url and the username in
  \<^verbatim>\<open>globalState\<close>; with \<open>prompt = true\<close> they are the two strings just entered in the
  input boxes, and the stored ones are read and dropped. The lookup key
  therefore comes from the stored pair in the first mode only.
\<close>
theorem vault_lookup_key:
  assumes "retrieveUrl prompt w this = (url, w1)"
    and "retrieveUsername prompt w1 this = (usr, w2)"
  shows "filter is_vault_read (added w (fst (snd (populateCredentials E prompt w this)))) =
           (if url = [] \<or> usr = [] then [] else [GetPassword SERVICE_ID (createAccountId E url usr)]) \<and>
         (\<not> prompt \<longrightarrow>
            url = or_empty (globalState w XRAY_URL_KEY) \<and>
            usr = or_empty (globalState w XRAY_USERNAME_KEY)) \<and>
         (prompt \<and> answers w = a # b # rest \<longrightarrow> url = or_empty a \<and> usr = or_empty b)"
proof (intro conjI impI)
  show "filter is_vault_read (added w (fst (snd (populateCredentials E prompt w this)))) =
           (if url = [] \<or> usr = [] then [] else [GetPassword SERVICE_ID (createAccountId E url usr)])"
    by (rule populate_vault_reads [OF assms])
  show "url = or_empty (globalState w XRAY_URL_KEY)" if "\<not> prompt"
    using assms(1) that by (simp add: retrieveUrl_eq)
  show "usr = or_empty (globalState w XRAY_USERNAME_KEY)" if "\<not> prompt"
    using assms that by (auto simp: retrieveUrl_eq retrieveUsername_eq)
  show "url = or_empty a" if "prompt \<and> answers w = a # b # rest"
    using assms(1) that by (simp add: retrieveUrl_eq)
  show "usr = or_empty b" if "prompt \<and> answers w = a # b # rest"
    using assms that by (auto simp: retrieveUrl_eq retrieveUsername_eq)
qed

theorem vault_lookup_key_witness:
  "filter is_vault_read (added retyping_world
       (fst (snd (populateCredentials (sample_externals True) True retyping_world new_manager)))) =
     [GetPassword SERVICE_ID ''0df4b9bec1d91dc6588d1cf50865d1e81bd4f1bb3fe7af17276fda44ada011d5''] \<and>
   filter is_vault_read (added stored_world
       (fst (snd (populateCredentials (sample_externals True) False stored_world new_manager)))) =
     [GetPassword SERVICE_ID ''6de4539c2c694be341aac51417ff0ddd46fbf9e410cda76a0e56d21d3393d66e'']"
proof -
  let ?E = "sample_externals True"
  note t = vault_lookup_key [OF surjective_pairing surjective_pairing]
  have "fst (retrieveUrl True retyping_world new_manager) = ''https://new.example''"
    "fst (retrieveUsername True (snd (retrieveUrl True retyping_world new_manager)) new_manager) = ''bob''"
    by (simp_all add: retrieveUrl_eq retrieveUsername_eq retyping_world_def blank_world_def or_empty_def)
  then have a: "filter is_vault_read (added retyping_world
       (fst (snd (populateCredentials ?E True retyping_world new_manager)))) =
     [GetPassword SERVICE_ID ''0df4b9bec1d91dc6588d1cf50865d1e81bd4f1bb3fe7af17276fda44ada011d5'']"
    using t [where prompt = True and w = retyping_world and this = new_manager and E = ?E, THEN conjunct1]
    by (simp add: createAccountId_def sample_externals_def sample_sha256_def)
  have "fst (retrieveUrl False stored_world new_manager) = ''https://x.example''"
    "fst (retrieveUsername False (snd (retrieveUrl False stored_world new_manager)) new_manager) = ''bob''"
    by (simp_all add: retrieveUrl_eq retrieveUsername_eq stored_world_def blank_world_def or_empty_def
        XRAY_URL_KEY_def XRAY_USERNAME_KEY_def)
  then have b: "filter is_vault_read (added stored_world
       (fst (snd (populateCredentials ?E False stored_world new_manager)))) =
     [GetPassword SERVICE_ID ''6de4539c2c694be341aac51417ff0ddd46fbf9e410cda76a0e56d21d3393d66e'']"
    using t [where prompt = False and w = stored_world and this = new_manager and E = ?E, THEN conjunct1]
    by (simp add: createAccountId_def sample_externals_def sample_sha256_def)
  from a b show ?thesis by blast
qed

theorem vault_lookup_key_counterexample:
  "globalState retyping_world XRAY_URL_KEY = Some ''https://old.example'' \<and>
   globalState retyping_world XRAY_USERNAME_KEY = Some ''alice'' \<and>
   filter is_vault_read
     (trace (fst (snd (populateCredentials (sample_externals True) True retyping_world new_manager)))) =
     [GetPassword SERVICE_ID (createAccountId (sample_externals True) ''https://new.example'' ''bob'')] \<and>
   createAccountId (sample_externals True) ''https://new.example'' ''bob'' \<noteq>
     createAccountId (sample_externals True) ''https://old.example'' ''alice''"
  by (simp add: run_defs retyping_world_def)

subsection \<open>Connecting\<close>

lemma emit_frame:
  "globalState (emit e w) = globalState w"
  "keychain (emit e w) = keychain w"
  "configuration (emit e w) = configuration w"
  "answers (emit e w) = answers w"
  "trace (emit e w) = trace w @ [e]"
  "rejects (emit e w) = rejects w"
  by (simp_all add: emit_def)

lemma connect_unfold:
  assumes "populateCredentials E True w this = (ok, w1, this1)"
  shows "connect E w this =
     (if \<not> ok then (Inr False, w1, this1)
      else case createXrayClient E w1 this1 of
             Inl e \<Rightarrow> (Inl e, emit (WithProgress ''Checking connection with Xray server...'') w1, this1)
           | Inr c \<Rightarrow>
               if \<not> checkConnection E c
               then (Inr False,
                     emit (CheckConnection c) (emit (WithProgress ''Checking connection with Xray server...'') w1),
                     this1)
               else
                 (case storeUrl
                         (emit (CheckConnection c)
                            (emit (WithProgress ''Checking connection with Xray server...'') w1))
                         this1 of
                    (Some e, w4) \<Rightarrow> (Inl e, w4, this1)
                  | (None, w4) \<Rightarrow>
                      (case storeUsername w4 this1 of
                         (Some e, w5) \<Rightarrow> (Inl e, w5, this1)
                       | (None, w5) \<Rightarrow>
                           (case storePassword E w5 this1 of
                              (Some e, w6) \<Rightarrow> (Inl e, w6, this1)
                            | (None, w6) \<Rightarrow> (Inr True, w6, this1)))))"
proof -
  have "createXrayClient E (emit (WithProgress ''Checking connection with Xray server...'') w1) this1 =
        createXrayClient E w1 this1"
    by (rule createXrayClient_configuration) (simp add: emit_frame)
  then show ?thesis
    using assms by (simp add: connect_def withProgress_def Let_def split: sum.splits)
qed

lemma populate_True_set:
  assumes "populateCredentials E prompt w this = (True, w1, this1)"
  shows "areCredentialsSet this1"
proof -
  obtain url wa where 1: "retrieveUrl prompt w this = (url, wa)"
    by (cases "retrieveUrl prompt w this")
  obtain usr wb where 2: "retrieveUsername prompt wa this = (usr, wb)"
    by (cases "retrieveUsername prompt wa this")
  obtain pwd wc where 3: "retrievePassword E prompt url usr wb = (pwd, wc)"
    by (cases "retrievePassword E prompt url usr wb")
  show ?thesis
    using assms by (auto simp: populate_stages [OF 1 2 3] areCredentialsSet_def split: if_splits)
qed

lemma getComponents_keeps_credentials:
  "areCredentialsSet this \<Longrightarrow> snd (snd (getComponents E cd w this)) = this"
  by (simp add: getComponents_def Let_def split: sum.splits)

lemma getGoCenterModules_keeps_manager:
  "snd (snd (getGoCenterModules E cd w this)) = this"
  by (simp add: getGoCenterModules_def Let_def split: sum.splits)

lemma populate_True_answers:
  assumes "answers w = Some url # Some usr # Some pwd # rest"
    and "url \<noteq> []" and "usr \<noteq> []" and "pwd \<noteq> []"
  shows "fst (populateCredentials E True w this) = True"
    and "snd (snd (populateCredentials E True w this)) =
           \<lparr>this_url = url, this_username = usr, this_password = pwd\<rparr>"
  using assms
  by (simp_all add: populateCredentials_def retrieveUrl_eq retrieveUsername_eq retrievePassword_eq or_empty_def)

lemma run_typing_populate:
  "populateCredentials (sample_externals ok) True typing_world new_manager =
     (True, fst (snd (populateCredentials (sample_externals ok) True typing_world new_manager)), sample_manager)"
  by (simp add: prod_eq_iff run_typing)

lemma sample_manager_url: "this_url sample_manager \<noteq> []"
  by (simp add: sample_manager_def)

lemma run_typing_client:
  "createXrayClient (sample_externals ok)
       (fst (snd (populateCredentials (sample_externals ok) True typing_world new_manager))) sample_manager =
     Inr \<lparr>serverUrl = Some ''https://x.example'', username = Some ''bob'', password = Some ''secret'',
          headers = [''User-Agent'' \<mapsto> ''jfrog-vscode-extension/1.0.0''],
          proxy = PConfig \<lparr>protocol = None, host = None, port = None\<rparr>\<rparr>"
proof -
  have "configuration (fst (snd (populateCredentials (sample_externals ok) True typing_world new_manager))) =
        configuration typing_world"
    by (rule populate_world(3) [OF run_typing_populate])
  then have c: "configuration (fst (snd (populateCredentials (sample_externals ok) True typing_world new_manager))) =
        Map.empty"
    by (simp add: typing_world_def blank_world_def)
  show ?thesis
    unfolding createXrayClient_no_proxy_settings [OF c sample_manager_url]
    by (simp add: sample_manager_def USER_AGENT_def sample_externals_def)
qed

lemma typing_world_stores:
  "trace typing_world = []" "globalState typing_world = Map.empty" "keychain typing_world = Map.empty"
  "rejects typing_world e = None"
  by (simp_all add: typing_world_def blank_world_def)

text \<open>
  C1. Take a run of \<^verbatim>\<open>connect\<close> in which \<^verbatim>\<open>populateCredentials(true)\<close> succeeds, leaving
  the manager \<open>this1\<close>, and \<^verbatim>\<open>checkConnection\<close> returns false for the client built from
  it. Then \<^verbatim>\<open>connect\<close> returns false; none of the events it adds to the trace is a
  write (\<^verbatim>\<open>globalState.update\<close> or \<^verbatim>\<open>keytar.setPassword\<close>), and \<^verbatim>\<open>globalState\<close> and the
  vault are as before; the manager is left as \<open>this1\<close>, with its three fields set,
  and the later requests \<^verbatim>\<open>getComponents\<close> and \<^verbatim>\<open>getGoCenterModules\<close> keep it so.
\<close>
theorem connect_validation_fails:
  assumes "populateCredentials E True w this = (True, w1, this1)"
    and "createXrayClient E w1 this1 = Inr xrayClient"
    and "\<not> checkConnection E xrayClient"
  shows "fst (connect E w this) = Inr False \<and>
         trace (fst (snd (connect E w this))) = trace w @ added w (fst (snd (connect E w this))) \<and>
         filter is_write (added w (fst (snd (connect E w this)))) = [] \<and>
         globalState (fst (snd (connect E w this))) = globalState w \<and>
         keychain (fst (snd (connect E w this))) = keychain w \<and>
         snd (snd (connect E w this)) = this1 \<and>
         areCredentialsSet this1 \<and>
         snd (snd (getComponents E cd w' this1)) = this1 \<and>
         snd (snd (getGoCenterModules E cd w' this1)) = this1"
proof -
  let ?p = "emit (WithProgress ''Checking connection with Xray server...'') w1"
  let ?c = "emit (CheckConnection xrayClient) ?p"
  have c: "connect E w this = (Inr False, ?c, this1)"
    by (simp add: connect_unfold [OF assms(1)] assms(2,3))
  note p = populate_world [OF assms(1)]
  note e1 = added_trans [OF p(4) added_emit(2) [where w = w1 and e = "WithProgress ''Checking connection with Xray server...''"]]
  note e2 = added_trans [OF e1(2) added_emit(2) [where w = ?p and e = "CheckConnection xrayClient"]]
  have s: "areCredentialsSet this1"
    by (rule populate_True_set [OF assms(1)])
  have "filter is_write (added w ?c) = []"
    by (simp add: e2(1) e1(1) p(5) added_emit(1))
  moreover have "globalState ?c = globalState w" "keychain ?c = keychain w"
    by (simp_all add: emit_frame p(1,2))
  ultimately show ?thesis
    unfolding c fst_conv snd_conv
    using e2(2) s getComponents_keeps_credentials [OF s, of E cd w']
      getGoCenterModules_keeps_manager [of E cd w' this1]
    by blast
qed

theorem connect_validation_fails_witness:
  "fst (connect (sample_externals False) typing_world new_manager) = Inr False \<and>
   filter is_write (trace (fst (snd (connect (sample_externals False) typing_world new_manager)))) = [] \<and>
   globalState (fst (snd (connect (sample_externals False) typing_world new_manager))) = Map.empty \<and>
   keychain (fst (snd (connect (sample_externals False) typing_world new_manager))) = Map.empty \<and>
   snd (snd (connect (sample_externals False) typing_world new_manager)) =
     \<lparr>this_url = ''https://x.example'', this_username = ''bob'', this_password = ''secret''\<rparr>"
proof -
  have n: "\<not> checkConnection (sample_externals False)
      \<lparr>serverUrl = Some ''https://x.example'', username = Some ''bob'', password = Some ''secret'',
       headers = [''User-Agent'' \<mapsto> ''jfrog-vscode-extension/1.0.0''],
       proxy = PConfig \<lparr>protocol = None, host = None, port = None\<rparr>\<rparr>"
    by (simp add: sample_externals_def)
  note t = connect_validation_fails [OF run_typing_populate run_typing_client n]
  have "added typing_world (fst (snd (connect (sample_externals False) typing_world new_manager))) =
        trace (fst (snd (connect (sample_externals False) typing_world new_manager)))"
    by (simp add: added_def typing_world_stores)
  then show ?thesis
    using t by (simp add: typing_world_stores sample_manager_def)
qed

text \<open>
  C2. Take a run of \<^verbatim>\<open>connect\<close> in which \<^verbatim>\<open>populateCredentials(true)\<close> succeeds, leaving
  the manager \<open>this1\<close>, \<^verbatim>\<open>checkConnection\<close> returns true for the client built from it,
  and neither store rejects the write that \<^verbatim>\<open>connect\<close> asks of it. Then \<^verbatim>\<open>connect\<close>
  returns true, and after populating it performs, in this order: the progress
  notification, the connection check, the update of the url in \<^verbatim>\<open>globalState\<close>, the
  update of the username in \<^verbatim>\<open>globalState\<close>, and the storing of the password in the vault
  under the account id of that url and username. These three are the only writes of the
  whole run. What a rejected write does is stated after the theorem.
\<close>

theorem connect_validation_succeeds:
  assumes "populateCredentials E True w this = (True, w1, this1)"
    and "createXrayClient E w1 this1 = Inr xrayClient"
    and "checkConnection E xrayClient"
    and "rejects w (GlobalStateUpdate XRAY_URL_KEY (this_url this1)) = None"
    and "rejects w (GlobalStateUpdate XRAY_USERNAME_KEY (this_username this1)) = None"
    and "rejects w (SetPassword SERVICE_ID (createAccountId E (this_url this1) (this_username this1))
           (this_password this1)) = None"
  shows "fst (connect E w this) = Inr True \<and>
         trace (fst (snd (connect E w this))) = trace w @ added w (fst (snd (connect E w this))) \<and>
         added w1 (fst (snd (connect E w this))) =
           [WithProgress ''Checking connection with Xray server...'',
            CheckConnection xrayClient,
            GlobalStateUpdate XRAY_URL_KEY (this_url this1),
            GlobalStateUpdate XRAY_USERNAME_KEY (this_username this1),
            SetPassword SERVICE_ID (createAccountId E (this_url this1) (this_username this1)) (this_password this1)] \<and>
         filter is_write (added w (fst (snd (connect E w this)))) =
           [GlobalStateUpdate XRAY_URL_KEY (this_url this1),
            GlobalStateUpdate XRAY_USERNAME_KEY (this_username this1),
            SetPassword SERVICE_ID (createAccountId E (this_url this1) (this_username this1)) (this_password this1)] \<and>
         globalState (fst (snd (connect E w this))) =
           (globalState w)(XRAY_URL_KEY \<mapsto> this_url this1, XRAY_USERNAME_KEY \<mapsto> this_username this1) \<and>
         keychain (fst (snd (connect E w this))) =
           (keychain w)((SERVICE_ID, createAccountId E (this_url this1) (this_username this1)) \<mapsto> this_password this1) \<and>
         snd (snd (connect E w this)) = this1"
proof -
  let ?evs = "[WithProgress ''Checking connection with Xray server...'',
            CheckConnection xrayClient,
            GlobalStateUpdate XRAY_URL_KEY (this_url this1),
            GlobalStateUpdate XRAY_USERNAME_KEY (this_username this1),
            SetPassword SERVICE_ID (createAccountId E (this_url this1) (this_username this1)) (this_password this1)]"
  note p = populate_world [OF assms(1)]
  note store_defs = storePassword_def storeUsername_def storeUrl_def update_globalState_def
    keytar_setPassword_def emit_def
  define s where "s = fst (snd (connect E w this))"
  have r: "fst (connect E w this) = Inr True" "snd (snd (connect E w this)) = this1"
    by (simp_all add: connect_unfold [OF assms(1)] assms(2-6) store_defs p(8))
  have t: "trace s = trace w1 @ ?evs"
    unfolding s_def by (simp add: connect_unfold [OF assms(1)] assms(2-6) store_defs p(8))
  then have a1: "added w1 s = ?evs"
    by (simp add: added_def)
  with t have "trace s = trace w1 @ added w1 s"
    by simp
  note e = added_trans [OF p(4) this]
  have w: "filter is_write (added w s) = filter is_write ?evs"
    by (simp only: e(1) filter_append p(5) a1 append_Nil)
  have g: "globalState s =
      (globalState w)(XRAY_URL_KEY \<mapsto> this_url this1, XRAY_USERNAME_KEY \<mapsto> this_username this1)"
    unfolding s_def by (simp add: connect_unfold [OF assms(1)] assms(2-6) store_defs p(8) p(1))
  have k: "keychain s =
      (keychain w)((SERVICE_ID, createAccountId E (this_url this1) (this_username this1)) \<mapsto> this_password this1)"
    unfolding s_def by (simp add: connect_unfold [OF assms(1)] assms(2-6) store_defs p(8) p(2))
  show ?thesis
    unfolding s_def [symmetric] using r e(2) a1 w g k by simp
qed

theorem connect_validation_succeeds_witness:
  "fst (connect (sample_externals True) typing_world new_manager) = Inr True \<and>
   filter is_write (trace (fst (snd (connect (sample_externals True) typing_world new_manager)))) =
     [GlobalStateUpdate ''jfrog.xray.url'' ''https://x.example'',
      GlobalStateUpdate ''jfrog.xray.username'' ''bob'',
      SetPassword ''com.jfrog.xray.vscode''
        ''6de4539c2c694be341aac51417ff0ddd46fbf9e410cda76a0e56d21d3393d66e'' ''secret''] \<and>
   globalState (fst (snd (connect (sample_externals True) typing_world new_manager))) =
     [''jfrog.xray.url'' \<mapsto> ''https://x.example'', ''jfrog.xray.username'' \<mapsto> ''bob''] \<and>
   keychain (fst (snd (connect (sample_externals True) typing_world new_manager))) =
     [(''com.jfrog.xray.vscode'', ''6de4539c2c694be341aac51417ff0ddd46fbf9e410cda76a0e56d21d3393d66e'')
        \<mapsto> ''secret'']"
proof -
  have y: "checkConnection (sample_externals True)
      \<lparr>serverUrl = Some ''https://x.example'', username = Some ''bob'', password = Some ''secret'',
       headers = [''User-Agent'' \<mapsto> ''jfrog-vscode-extension/1.0.0''],
       proxy = PConfig \<lparr>protocol = None, host = None, port = None\<rparr>\<rparr>"
    by (simp add: sample_externals_def)
  have n: "rejects typing_world e = None" for e
    by (simp add: typing_world_def blank_world_def)
  note t = connect_validation_succeeds [OF run_typing_populate run_typing_client y n n n]
  have a: "added typing_world (fst (snd (connect (sample_externals True) typing_world new_manager))) =
        trace (fst (snd (connect (sample_externals True) typing_world new_manager)))"
    by (simp add: added_def typing_world_stores)
  have i: "createAccountId (sample_externals True) ''https://x.example'' ''bob'' =
      ''6de4539c2c694be341aac51417ff0ddd46fbf9e410cda76a0e56d21d3393d66e''"
    by (simp add: createAccountId_def sample_externals_def sample_sha256_def)
  show ?thesis
    using t a i
    by (simp add: typing_world_stores sample_manager_def XRAY_URL_KEY_def XRAY_USERNAME_KEY_def SERVICE_ID_def)
qed

text \<open>
  The three writes are awaited one after the other and nothing catches a rejection: the
  first write that its store rejects ends \<^verbatim>\<open>connect\<close> with that error, after the writes
  before it and without the writes after it.
\<close>

lemma connect_write_rejected:
  assumes "populateCredentials E True w this = (True, w1, this1)"
    and "createXrayClient E w1 this1 = Inr xrayClient"
    and "checkConnection E xrayClient"
  shows "rejects w (GlobalStateUpdate XRAY_URL_KEY (this_url this1)) = Some reason \<Longrightarrow>
           fst (connect E w this) = Inl (StorageError reason) \<and>
           filter is_write (added w1 (fst (snd (connect E w this)))) =
             [GlobalStateUpdate XRAY_URL_KEY (this_url this1)] \<and>
           globalState (fst (snd (connect E w this))) = globalState w \<and>
           keychain (fst (snd (connect E w this))) = keychain w"
    and "rejects w (GlobalStateUpdate XRAY_URL_KEY (this_url this1)) = None \<Longrightarrow>
         rejects w (GlobalStateUpdate XRAY_USERNAME_KEY (this_username this1)) = Some reason \<Longrightarrow>
           fst (connect E w this) = Inl (StorageError reason) \<and>
           filter is_write (added w1 (fst (snd (connect E w this)))) =
             [GlobalStateUpdate XRAY_URL_KEY (this_url this1),
              GlobalStateUpdate XRAY_USERNAME_KEY (this_username this1)] \<and>
           globalState (fst (snd (connect E w this))) = (globalState w)(XRAY_URL_KEY \<mapsto> this_url this1) \<and>
           keychain (fst (snd (connect E w this))) = keychain w"
    and "rejects w (GlobalStateUpdate XRAY_URL_KEY (this_url this1)) = None \<Longrightarrow>
         rejects w (GlobalStateUpdate XRAY_USERNAME_KEY (this_username this1)) = None \<Longrightarrow>
         rejects w (SetPassword SERVICE_ID (createAccountId E (this_url this1) (this_username this1))
           (this_password this1)) = Some reason \<Longrightarrow>
           fst (connect E w this) = Inl (StorageError reason) \<and>
           filter is_write (added w1 (fst (snd (connect E w this)))) =
             [GlobalStateUpdate XRAY_URL_KEY (this_url this1),
              GlobalStateUpdate XRAY_USERNAME_KEY (this_username this1),
              SetPassword SERVICE_ID (createAccountId E (this_url this1) (this_username this1))
                (this_password this1)] \<and>
           globalState (fst (snd (connect E w this))) =
             (globalState w)(XRAY_URL_KEY \<mapsto> this_url this1, XRAY_USERNAME_KEY \<mapsto> this_username this1) \<and>
           keychain (fst (snd (connect E w this))) = keychain w"
proof -
  note p = populate_world [OF assms(1)]
  note defs = connect_unfold [OF assms(1)] storePassword_def storeUsername_def storeUrl_def
    update_globalState_def keytar_setPassword_def emit_def added_def
  show "rejects w (GlobalStateUpdate XRAY_URL_KEY (this_url this1)) = Some reason \<Longrightarrow>
           fst (connect E w this) = Inl (StorageError reason) \<and>
           filter is_write (added w1 (fst (snd (connect E w this)))) =
             [GlobalStateUpdate XRAY_URL_KEY (this_url this1)] \<and>
           globalState (fst (snd (connect E w this))) = globalState w \<and>
           keychain (fst (snd (connect E w this))) = keychain w"
    by (simp add: defs assms(2,3) p(1,2,8))
  show "rejects w (GlobalStateUpdate XRAY_URL_KEY (this_url this1)) = None \<Longrightarrow>
         rejects w (GlobalStateUpdate XRAY_USERNAME_KEY (this_username this1)) = Some reason \<Longrightarrow>
           fst (connect E w this) = Inl (StorageError reason) \<and>
           filter is_write (added w1 (fst (snd (connect E w this)))) =
             [GlobalStateUpdate XRAY_URL_KEY (this_url this1),
              GlobalStateUpdate XRAY_USERNAME_KEY (this_username this1)] \<and>
           globalState (fst (snd (connect E w this))) = (globalState w)(XRAY_URL_KEY \<mapsto> this_url this1) \<and>
           keychain (fst (snd (connect E w this))) = keychain w"
    by (simp add: defs assms(2,3) p(1,2,8))
  show "rejects w (GlobalStateUpdate XRAY_URL_KEY (this_url this1)) = None \<Longrightarrow>
         rejects w (GlobalStateUpdate XRAY_USERNAME_KEY (this_username this1)) = None \<Longrightarrow>
         rejects w (SetPassword SERVICE_ID (createAccountId E (this_url this1) (this_username this1))
           (this_password this1)) = Some reason \<Longrightarrow>
           fst (connect E w this) = Inl (StorageError reason) \<and>
           filter is_write (added w1 (fst (snd (connect E w this)))) =
             [GlobalStateUpdate XRAY_URL_KEY (this_url this1),
              GlobalStateUpdate XRAY_USERNAME_KEY (this_username this1),
              SetPassword SERVICE_ID (createAccountId E (this_url this1) (this_username this1))
                (this_password this1)] \<and>
           globalState (fst (snd (connect E w this))) =
             (globalState w)(XRAY_URL_KEY \<mapsto> this_url this1, XRAY_USERNAME_KEY \<mapsto> this_username this1) \<and>
           keychain (fst (snd (connect E w this))) = keychain w"
    by (simp add: defs assms(2,3) p(1,2,8))
qed

text \<open>
  With a locked key chain: the url and the username reach \<^verbatim>\<open>globalState\<close>, the password
  does not reach the vault, and \<^verbatim>\<open>connect\<close> fails although the server accepted the
  credentials.
\<close>

lemma run_connect_locked:
  "fst (connect (sample_externals True) locked_world new_manager) =
     Inl (StorageError ''The keychain is locked'')"
  "globalState (fst (snd (connect (sample_externals True) locked_world new_manager))) =
     [XRAY_URL_KEY \<mapsto> ''https://x.example'', XRAY_USERNAME_KEY \<mapsto> ''bob'']"
  "keychain (fst (snd (connect (sample_externals True) locked_world new_manager))) = Map.empty"
proof -
  let ?E = "sample_externals True"
  let ?w1 = "fst (snd (populateCredentials ?E True locked_world new_manager))"
  have a: "answers locked_world = Some ''https://x.example'' # Some ''bob'' # Some ''secret'' # []"
    by (simp add: locked_world_def typing_world_def blank_world_def)
  have ne: "''https://x.example'' \<noteq> []" "''bob'' \<noteq> []" "''secret'' \<noteq> []"
    by simp_all
  have P: "populateCredentials ?E True locked_world new_manager = (True, ?w1, sample_manager)"
    using populate_True_answers [OF a ne, of ?E new_manager]
    by (simp add: prod_eq_iff sample_manager_def)
  have "configuration ?w1 = configuration locked_world"
    by (rule populate_world(3) [OF P])
  then have c: "configuration ?w1 = Map.empty"
    by (simp add: locked_world_def typing_world_def blank_world_def)
  note X = createXrayClient_no_proxy_settings [OF c sample_manager_url, of True]
  have k: "checkConnection ?E x" for x
    by (simp add: sample_externals_def)
  have r: "rejects locked_world (GlobalStateUpdate key v) = None"
    "rejects locked_world (SetPassword service account pw) = Some ''The keychain is locked''"
    for key v service account pw
    by (simp_all add: locked_world_def locked_keychain_def)
  have s: "globalState locked_world = Map.empty" "keychain locked_world = Map.empty"
    by (simp_all add: locked_world_def typing_world_def blank_world_def)
  note t = connect_write_rejected(3) [OF P X k r(1) r(1) r(2)]
  show "fst (connect ?E locked_world new_manager) = Inl (StorageError ''The keychain is locked'')"
    using t by blast
  show "globalState (fst (snd (connect ?E locked_world new_manager))) =
     [XRAY_URL_KEY \<mapsto> ''https://x.example'', XRAY_USERNAME_KEY \<mapsto> ''bob'']"
    using t by (simp add: s sample_manager_def)
  show "keychain (fst (snd (connect ?E locked_world new_manager))) = Map.empty"
    using t by (simp add: s)
qed

lemma run_connect_typing:
  "fst (connect (sample_externals ok) typing_world new_manager) = Inr ok"
  "snd (snd (connect (sample_externals ok) typing_world new_manager)) = sample_manager"
proof -
  have r: "rejects (fst (snd (populateCredentials (sample_externals b) True typing_world new_manager))) =
      (\<lambda>e. None)" for b
    unfolding populate_world(8) [OF run_typing_populate]
    by (rule ext) (simp add: typing_world_stores)
  have c: "checkConnection (sample_externals b) c = b" for b c
    by (simp add: sample_externals_def)
  show "fst (connect (sample_externals ok) typing_world new_manager) = Inr ok"
    "snd (snd (connect (sample_externals ok) typing_world new_manager)) = sample_manager"
    by (simp_all add: connect_unfold [OF run_typing_populate] run_typing_client c r
        storePassword_def storeUsername_def storeUrl_def update_globalState_def
        keytar_setPassword_def emit_def)
qed

text \<open>
  C5, as amended. When the user answers the three input boxes with a non-empty url,
  username and password, and \<^verbatim>\<open>checkConnection\<close> returns false for the client built from
  them, \<^verbatim>\<open>connect\<close> returns false and the three answers stay in the fields of the
  manager, so that \<^verbatim>\<open>areCredentialsSet\<close> is true afterwards. A failed
  validation does not undo the assignment that populating made.
\<close>
theorem connect_validation_fails_credentials_set:
  assumes "answers w = Some url # Some usr # Some pwd # rest"
    and "url \<noteq> []" and "usr \<noteq> []" and "pwd \<noteq> []"
    and "createXrayClient E w \<lparr>this_url = url, this_username = usr, this_password = pwd\<rparr> = Inr xrayClient"
    and "\<not> checkConnection E xrayClient"
  shows "fst (connect E w this) = Inr False \<and>
         snd (snd (connect E w this)) = \<lparr>this_url = url, this_username = usr, this_password = pwd\<rparr> \<and>
         areCredentialsSet (snd (snd (connect E w this))) = True"
proof -
  let ?this1 = "\<lparr>this_url = url, this_username = usr, this_password = pwd\<rparr>"
  let ?w1 = "fst (snd (populateCredentials E True w this))"
  have p: "populateCredentials E True w this = (True, ?w1, ?this1)"
    using populate_True_answers [OF assms(1-4), of E this] by (simp add: prod_eq_iff)
  have "configuration ?w1 = configuration w"
    by (rule populate_world(3) [OF p])
  then have "createXrayClient E ?w1 ?this1 = Inr xrayClient"
    using assms(5) createXrayClient_configuration [of ?w1 w E ?this1] by simp
  then have "connect E w this =
      (Inr False,
       emit (CheckConnection xrayClient) (emit (WithProgress ''Checking connection with Xray server...'') ?w1),
       ?this1)"
    by (simp add: connect_unfold [OF p] assms(6))
  then show ?thesis
    using assms(2-4) by (simp add: areCredentialsSet_def)
qed

theorem connect_validation_fails_credentials_set_witness:
  "fst (connect (sample_externals False) typing_world new_manager) = Inr False \<and>
   areCredentialsSet (snd (snd (connect (sample_externals False) typing_world new_manager))) = True"
proof -
  have a: "answers typing_world = Some ''https://x.example'' # Some ''bob'' # Some ''secret'' # []"
    by (simp add: typing_world_def blank_world_def)
  have c: "createXrayClient (sample_externals False) typing_world
      \<lparr>this_url = ''https://x.example'', this_username = ''bob'', this_password = ''secret''\<rparr> =
      Inr \<lparr>serverUrl = Some ''https://x.example'', username = Some ''bob'', password = Some ''secret'',
          headers = [''User-Agent'' \<mapsto> USER_AGENT (sample_externals False)],
          proxy = PConfig \<lparr>protocol = None, host = None, port = None\<rparr>\<rparr>"
    by (simp add: createXrayClient_no_proxy_settings typing_world_def blank_world_def)
  have n: "\<not> checkConnection (sample_externals False)
      \<lparr>serverUrl = Some ''https://x.example'', username = Some ''bob'', password = Some ''secret'',
       headers = [''User-Agent'' \<mapsto> USER_AGENT (sample_externals False)],
       proxy = PConfig \<lparr>protocol = None, host = None, port = None\<rparr>\<rparr>"
    by (simp add: sample_externals_def)
  have "''https://x.example'' \<noteq> []" "''bob'' \<noteq> []" "''secret'' \<noteq> []"
    by simp_all
  from connect_validation_fails_credentials_set [OF a this c n, of new_manager]
  show ?thesis by blast
qed

theorem connect_validation_fails_credentials_set_counterexample:
  "answers typing_world = [Some ''https://x.example'', Some ''bob'', Some ''secret''] \<and>
   fst (connect (sample_externals False) typing_world new_manager) = Inr False \<and>
   areCredentialsSet (snd (snd (connect (sample_externals False) typing_world new_manager))) \<noteq> False"
proof -
  have "answers typing_world = [Some ''https://x.example'', Some ''bob'', Some ''secret'']"
    by (simp add: typing_world_def blank_world_def)
  then show ?thesis
    by (simp add: run_connect_typing areCredentialsSet_def sample_manager_def)
qed

subsection \<open>Requests without credentials\<close>

text \<open>
  The three fields are private and only \<^verbatim>\<open>populateCredentials\<close> assigns them, all at
  once and to non-empty strings: in every reachable state they are all empty or all set.
\<close>

lemma populate_manager:
  "snd (snd (populateCredentials E prompt w this)) = this \<or>
   areCredentialsSet (snd (snd (populateCredentials E prompt w this)))"
proof (cases "fst (populateCredentials E prompt w this)")
  case True
  then have "populateCredentials E prompt w this =
      (True, fst (snd (populateCredentials E prompt w this)), snd (snd (populateCredentials E prompt w this)))"
    by (simp add: prod_eq_iff)
  then show ?thesis using populate_True_set by blast
next
  case False
  then show ?thesis
    using populateCredentials_def [of E prompt w this]
    by (auto simp: Let_def split: prod.splits if_splits)
qed

lemma connect_manager:
  "snd (snd (connect E w this)) = snd (snd (populateCredentials E True w this))"
  by (simp add: connect_unfold [OF triple_collapse] split: sum.splits prod.splits option.splits)

lemma getComponents_manager:
  "snd (snd (getComponents E cd w this)) =
     (if areCredentialsSet this then this else snd (snd (populateCredentials E False w this)))"
  by (simp add: getComponents_def Let_def split: sum.splits prod.splits)

lemma reachable_all_or_nothing:
  "reachable E this \<Longrightarrow> this = new_manager \<or> areCredentialsSet this"
proof (induction rule: reachable.induct)
  case reach_new
  then show ?case by simp
next
  case (reach_activate this w)
  then show ?case
    using populate_manager [of E False w this] by (auto simp: activate_def)
next
  case (reach_connect this w)
  then show ?case
    using populate_manager [of E True w this] by (auto simp: connect_manager)
next
  case (reach_getComponents this cd w)
  then show ?case
    using populate_manager [of E False w this] by (auto simp: getComponents_manager)
next
  case (reach_getGoCenterModules this cd w)
  then show ?case
    by (simp add: getGoCenterModules_keeps_manager)
qed

text \<open>
  C10, as amended. Take a call of \<^verbatim>\<open>getComponents\<close> in a reachable state whose
  credentials are not set, in which the attempt to populate them without prompting fails.
  The fields are then still empty, and \<^verbatim>\<open>getComponents\<close> does not look at the failure:
  it goes on to \<^verbatim>\<open>createXrayClient\<close>, which builds a configuration with the empty string
  as url, username and password and hands it to the constructor of \<^verbatim>\<open>XrayClient\<close>. When
  the constructor accepts it, the component-summary request is issued with it and the
  call returns the outcome of that request. When the constructor throws, as the one of
  \<^verbatim>\<open>xray-client-js\<close> does for an empty server url, the call fails with that error and
  issues no request; so it does with the error of a proxy address that \<^verbatim>\<open>new URL\<close>
  rejects.
\<close>

theorem getComponents_without_credentials:
  assumes "reachable E this"
    and "\<not> areCredentialsSet this"
    and "populateCredentials E False w this = (False, w1, this1)"
  shows "this1 = new_manager \<and>
         (getProxyConfig E w = Inr p \<longrightarrow>
            xrayClientConfig E w1 this1 =
              Inr (addProxyAuthHeader w
                     \<lparr>serverUrl = Some [], username = Some [], password = Some [],
                      headers = [''User-Agent'' \<mapsto> USER_AGENT E], proxy = p\<rparr>) \<and>
            getComponents E cd w this =
              (let clientConfig = addProxyAuthHeader w
                     \<lparr>serverUrl = Some [], username = Some [], password = Some [],
                      headers = [''User-Agent'' \<mapsto> USER_AGENT E], proxy = p\<rparr>
               in case new_XrayClient E clientConfig of
                    Some message \<Rightarrow> (Inl (ClientError message), w1, new_manager)
                  | None \<Rightarrow>
                      (case summary_component E clientConfig cd of
                         Inl msg \<Rightarrow> Inl (RequestError msg)
                       | Inr artifacts \<Rightarrow> Inr artifacts,
                       emit (SummaryComponent clientConfig cd) w1,
                       new_manager))) \<and>
         (getProxyConfig E w = Inl e \<longrightarrow> getComponents E cd w this = (Inl e, w1, new_manager))"
proof -
  have n: "this = new_manager"
    using reachable_all_or_nothing [OF assms(1)] assms(2) by blast
  have "this1 = this"
    using populate_manager [of E False w this] populate_True_set [of E False w this] assms(2,3)
    by (cases "areCredentialsSet this1") (auto simp: populateCredentials_def Let_def split: prod.splits if_splits)
  with n have t: "this1 = new_manager" by simp
  have c: "configuration w1 = configuration w"
    by (rule populate_world(3) [OF assms(3)])
  have x: "xrayClientConfig E w1 new_manager =
      (case getProxyConfig E w of
         Inl e \<Rightarrow> Inl e
       | Inr p \<Rightarrow> Inr (addProxyAuthHeader w
                     \<lparr>serverUrl = Some [], username = Some [], password = Some [],
                      headers = [''User-Agent'' \<mapsto> USER_AGENT E], proxy = p\<rparr>))"
    unfolding xrayClientConfig_configuration [OF c]
    by (simp add: xrayClientConfig_def addUserAgentHeader_def new_manager_def split: sum.splits)
  have g: "getComponents E cd w this =
      (case createXrayClient E w1 new_manager of
           Inl e \<Rightarrow> (Inl e, w1, new_manager)
         | Inr xrayClient \<Rightarrow>
             (case summary_component E xrayClient cd of
                Inl msg \<Rightarrow> Inl (RequestError msg)
              | Inr artifacts \<Rightarrow> Inr artifacts,
              emit (SummaryComponent xrayClient cd) w1, new_manager))"
    using assms(2,3) t by (simp add: getComponents_def Let_def split: sum.splits)
  show ?thesis
    by (simp add: t g x createXrayClient_def Let_def split: option.splits)
qed

lemma run_blank_populate:
  "populateCredentials (sample_externals ok) False blank_world new_manager =
     (False, blank_world\<lparr>trace := [GlobalStateGet XRAY_URL_KEY]\<rparr>, new_manager)"
  by (simp add: run_defs)

lemma blank_world_proxy:
  "getProxyConfig E blank_world = Inr (PConfig \<lparr>protocol = None, host = None, port = None\<rparr>)"
  by (simp add: getProxyConfig_def get_default_def truthy_def blank_world_def)

lemma new_manager_not_set: "\<not> areCredentialsSet new_manager"
  by (simp add: areCredentialsSet_def new_manager_def)

theorem getComponents_without_credentials_witness:
  "getComponents (sample_externals True) [''npm://lodash:4.17.0''] blank_world new_manager =
     (Inl (ClientError ''Xray client : must provide serverUrl''),
      blank_world\<lparr>trace := [GlobalStateGet XRAY_URL_KEY]\<rparr>,
      new_manager)"
proof -
  let ?E = "sample_externals True"
  have r: "reachable ?E new_manager"
    by (rule reach_new)
  note t = getComponents_without_credentials [OF r new_manager_not_set run_blank_populate,
      THEN conjunct2, THEN conjunct1, THEN mp, OF blank_world_proxy, THEN conjunct2]
  have a: "addProxyAuthHeader blank_world c = c" for c
    by (simp add: addProxyAuthHeader_def truthy_def blank_world_def)
  have x: "new_XrayClient ?E c = Some ''Xray client : must provide serverUrl''" if "serverUrl c = Some []" for c
    using that by (simp add: sample_externals_def sample_new_XrayClient_def truthy_def)
  show ?thesis
    unfolding t by (simp add: a x)
qed

theorem getComponents_without_credentials_counterexample:
  "\<not> areCredentialsSet new_manager \<and>
   fst (populateCredentials (sample_externals True) False blank_world new_manager) = False \<and>
   fst (getComponents (sample_externals True) [''npm://lodash:4.17.0''] blank_world new_manager) =
     Inl (ClientError ''Xray client : must provide serverUrl'') \<and>
   filter is_request
     (trace (fst (snd (getComponents (sample_externals True) [''npm://lodash:4.17.0''] blank_world new_manager)))) = []"
proof -
  have x: "createXrayClient (sample_externals True) (blank_world\<lparr>trace := [GlobalStateGet XRAY_URL_KEY]\<rparr>)
      new_manager = Inl (ClientError ''Xray client : must provide serverUrl'')"
    by (simp add: createXrayClient_def xrayClientConfig_no_proxy_settings blank_world_def new_manager_def)
       (simp add: sample_externals_def sample_new_XrayClient_def truthy_def)
  have "getComponents (sample_externals True) [''npm://lodash:4.17.0''] blank_world new_manager =
      (Inl (ClientError ''Xray client : must provide serverUrl''),
       blank_world\<lparr>trace := [GlobalStateGet XRAY_URL_KEY]\<rparr>, new_manager)"
    by (simp add: getComponents_def new_manager_not_set run_blank_populate x)
  then show ?thesis
    by (simp add: new_manager_not_set run_blank_populate)
qed

end
